theory Spec2Isabelle
  imports Complex_Main "HOL-Library.Char_ord" "HOL-Library.List_Lexorder"
    "HOL-Library.Product_Lexorder" "HOL-Library.Option_ord" "HOL-Library.Multiset"
begin

section \<open>Expense tracker: storage, CRUD and reports\<close>

text \<open>
  A shallow embedding of \<^verbatim>\<open>expense_tracker.py\<close> and \<^verbatim>\<open>database_reset.py\<close>.
  The SQLite file is a record of tables (lists of rows, in insertion order); every
  function that opens a connection takes the database and, when it writes, returns the
  new one. The clock (\<^verbatim>\<open>datetime.now()\<close>, \<^verbatim>\<open>CURRENT_TIMESTAMP\<close>) is an argument.
  Python floats and SQLite REAL values are idealised as rationals; the non-finite
  results of a pandas division are kept apart (type \<open>pdfloat\<close> below).
\<close>

subsection \<open>Errors\<close>

datatype py_error = OverflowError | ValueError | IntegrityError | OperationalError

subsection \<open>Dates: the part of \<^verbatim>\<open>datetime\<close> the program uses\<close>

record pydate =
  year :: nat
  month :: nat
  day :: nat

definition is_leap :: "nat \<Rightarrow> bool" where
  "is_leap y = (y mod 4 = 0 \<and> (y mod 100 \<noteq> 0 \<or> y mod 400 = 0))"

definition days_in_month :: "nat \<Rightarrow> nat \<Rightarrow> nat" where
  "days_in_month y m =
     (if m = 2 then (if is_leap y then 29 else 28)
      else if m = 4 \<or> m = 6 \<or> m = 9 \<or> m = 11 then 30 else 31)"

text \<open>The dates a \<^verbatim>\<open>datetime\<close> can hold: years 1 (MINYEAR) to 9999 (MAXYEAR).\<close>

definition valid_date :: "pydate \<Rightarrow> bool" where
  "valid_date d = (1 \<le> year d \<and> year d \<le> 9999 \<and> 1 \<le> month d \<and> month d \<le> 12
     \<and> 1 \<le> day d \<and> day d \<le> days_in_month (year d) (month d))"

text \<open>\<^verbatim>\<open>d.replace(day=n)\<close>: ValueError when the month has no such day.\<close>

definition replace_day :: "pydate \<Rightarrow> nat \<Rightarrow> py_error + pydate" where
  "replace_day d n =
     (if 1 \<le> n \<and> n \<le> days_in_month (year d) (month d) then Inr (d\<lparr>day := n\<rparr>)
      else Inl ValueError)"

text \<open>\<^verbatim>\<open>d - timedelta(days=1)\<close>: the day before, OverflowError before 0001-01-01.\<close>

definition sub_one_day :: "pydate \<Rightarrow> py_error + pydate" where
  "sub_one_day d =
     (if 1 < day d then Inr (d\<lparr>day := day d - 1\<rparr>)
      else if 1 < month d then
        Inr \<lparr>year = year d, month = month d - 1, day = days_in_month (year d) (month d - 1)\<rparr>
      else if 1 < year d then Inr \<lparr>year = year d - 1, month = 12, day = 31\<rparr>
      else Inl OverflowError)"

text \<open>\<^verbatim>\<open>d - timedelta(days=n)\<close> for \<open>n \<ge> 0\<close> (the callers pass 30, 90, 180 or 365).\<close>

fun sub_days :: "pydate \<Rightarrow> nat \<Rightarrow> py_error + pydate" where
  "sub_days d 0 = Inr d"
| "sub_days d (Suc n) = (case sub_one_day d of Inl e \<Rightarrow> Inl e | Inr d' \<Rightarrow> sub_days d' n)"

text \<open>
  The proleptic Gregorian ordinal of a date (0001-01-01 is day 1), the number on which
  \<^verbatim>\<open>datetime\<close> does its arithmetic; used below to check \<open>sub_one_day\<close>.
\<close>

definition days_before_year :: "nat \<Rightarrow> nat" where
  "days_before_year y = (y - 1) * 365 + (y - 1) div 4 - (y - 1) div 100 + (y - 1) div 400"

fun days_before_month :: "nat \<Rightarrow> nat \<Rightarrow> nat" where
  "days_before_month y 0 = 0"
| "days_before_month y (Suc 0) = 0"
| "days_before_month y (Suc (Suc m)) = days_before_month y (Suc m) + days_in_month y (Suc m)"

definition ymd2ord :: "pydate \<Rightarrow> nat" where
  "ymd2ord d = days_before_year (year d) + days_before_month (year d) (month d) + day d"

text \<open>\<^verbatim>\<open>strftime\<close> with the formats \<^verbatim>\<open>%Y-%m\<close> and \<^verbatim>\<open>%Y-%m-%d\<close>: four and two decimal digits.\<close>

definition digit_char :: "nat \<Rightarrow> char" where
  "digit_char n = ''0123456789'' ! (n mod 10)"

definition fmt4 :: "nat \<Rightarrow> string" where
  "fmt4 n = [digit_char (n div 1000), digit_char (n div 100), digit_char (n div 10), digit_char n]"

definition fmt2 :: "nat \<Rightarrow> string" where
  "fmt2 n = [digit_char (n div 10), digit_char n]"

definition strftime_Ym :: "pydate \<Rightarrow> string" where
  "strftime_Ym d = fmt4 (year d) @ ''-'' @ fmt2 (month d)"

definition strftime_Ymd :: "pydate \<Rightarrow> string" where
  "strftime_Ymd d = fmt4 (year d) @ ''-'' @ fmt2 (month d) @ ''-'' @ fmt2 (day d)"

subsection \<open>SQLite's LIKE\<close>

text \<open>
  \<^verbatim>\<open>text LIKE pattern\<close> with the default settings: \<^verbatim>\<open>%\<close> matches any run of
  characters, \<^verbatim>\<open>_\<close> one character, and ASCII letters match without regard to case.
  Strings are byte lists here, so \<^verbatim>\<open>_\<close> stands for one byte; the patterns of this
  program hold digits, \<^verbatim>\<open>-\<close> and a final \<^verbatim>\<open>%\<close> only.
\<close>

definition ascii_lower :: "char \<Rightarrow> char" where
  "ascii_lower c =
     (let n = (of_char c :: nat) in if 65 \<le> n \<and> n \<le> 90 then char_of (n + 32) else c)"

fun like :: "string \<Rightarrow> string \<Rightarrow> bool" where
  "like [] s = (s = [])"
| "like (p # ps) [] = (p = CHR ''%'' \<and> like ps [])"
| "like (p # ps) (c # cs) =
     (if p = CHR ''%'' then like ps (c # cs) \<or> like (p # ps) cs
      else (p = CHR ''_'' \<or> ascii_lower p = ascii_lower c) \<and> like ps cs)"

subsection \<open>Tables\<close>

text \<open>
  Row identifiers and user identifiers are Python integers; \<^verbatim>\<open>CURRENT_TIMESTAMP\<close> is a
  whole number of seconds. The column \<^verbatim>\<open>id\<close> of \<^verbatim>\<open>expenses\<close> is the field
  \<open>expense_id\<close>. The rows of \<^verbatim>\<open>users\<close> are not modelled: no function below reads
  them, and the connections that write expenses do not switch foreign keys on.
\<close>

record expense =
  expense_id :: int
  user_id :: int
  date :: string
  amount :: rat
  category :: string
  description :: string
  tags :: string
  payment_method :: string
  recurring :: int
  created_at :: nat
  updated_at :: nat

text \<open>The four columns of \<^verbatim>\<open>categories\<close> that the budget report selects and groups by.\<close>

record budget_fields =
  name :: string
  budget :: rat
  color :: string
  icon :: string

record category_row = budget_fields +
  category_id :: int
  category_created_at :: nat

record payment_method_row =
  payment_method_id :: int
  payment_name :: string
  payment_type :: string

datatype col_constraint =
    PRIMARY_KEY_AUTOINCREMENT | NOT_NULL | UNIQUE | CHECK_GT_0
  | DEFAULT_TEXT string | DEFAULT_INT int | DEFAULT_CURRENT_TIMESTAMP

datatype table_constraint = FOREIGN_KEY_ON_DELETE_CASCADE string string string

type_synonym column_def = "string \<times> string \<times> col_constraint list"

record table_def =
  table_name :: string
  columns :: "column_def list"
  table_constraints :: "table_constraint list"

record database =
  tables :: "table_def list"
  expenses :: "expense list"
  expenses_seq :: int
  categories :: "category_row list"
  categories_seq :: int
  payment_methods :: "payment_method_row list"
  payment_methods_seq :: int

text \<open>A database file that does not exist yet, or has just been removed.\<close>

definition empty_database :: database where
  "empty_database = \<lparr>tables = [], expenses = [], expenses_seq = 0, categories = [],
     categories_seq = 0, payment_methods = [], payment_methods_seq = 0\<rparr>"

text \<open>
  \<^verbatim>\<open>INTEGER PRIMARY KEY AUTOINCREMENT\<close>: one more than the largest identifier the table
  holds or has ever handed out (\<open>seq\<close> is the table's entry in \<^verbatim>\<open>sqlite_sequence\<close>).
\<close>

definition next_rowid :: "int \<Rightarrow> int list \<Rightarrow> int" where
  "next_rowid seq ids = max seq (fold max ids 0) + 1"

definition create_table_if_not_exists :: "table_def \<Rightarrow> database \<Rightarrow> database" where
  "create_table_if_not_exists t db =
     (if table_name t \<in> set (map table_name (tables db)) then db
      else db\<lparr>tables := tables db @ [t]\<rparr>)"

text \<open>\<^verbatim>\<open>CREATE TABLE\<close> without \<^verbatim>\<open>IF NOT EXISTS\<close> fails on a table that exists.\<close>

definition create_table :: "table_def \<Rightarrow> database \<Rightarrow> py_error + database" where
  "create_table t db =
     (if table_name t \<in> set (map table_name (tables db)) then Inl OperationalError
      else Inr (db\<lparr>tables := tables db @ [t]\<rparr>))"

text \<open>One \<^verbatim>\<open>INSERT INTO categories (name, budget, color, icon)\<close>; \<open>name\<close> is UNIQUE.\<close>

definition insert_category ::
  "nat \<Rightarrow> string \<times> rat \<times> string \<times> string \<Rightarrow> database \<Rightarrow> py_error + database" where
  "insert_category ts r db =
     (case r of (n, b, c, i) \<Rightarrow>
        if n \<in> set (map name (categories db)) then Inl IntegrityError
        else
          let k = next_rowid (categories_seq db) (map category_id (categories db))
          in Inr (db\<lparr>categories := categories db @
                [\<lparr>name = n, budget = b, color = c, icon = i,
                  category_id = k, category_created_at = ts\<rparr>],
               categories_seq := k\<rparr>))"

text \<open>One \<^verbatim>\<open>INSERT INTO payment_methods (name, type)\<close>; \<open>name\<close> is UNIQUE.\<close>

definition insert_payment_method ::
  "string \<times> string \<Rightarrow> database \<Rightarrow> py_error + database" where
  "insert_payment_method r db =
     (case r of (n, t) \<Rightarrow>
        if n \<in> set (map payment_name (payment_methods db)) then Inl IntegrityError
        else
          let k = next_rowid (payment_methods_seq db) (map payment_method_id (payment_methods db))
          in Inr (db\<lparr>payment_methods := payment_methods db @
                [\<lparr>payment_method_id = k, payment_name = n, payment_type = t\<rparr>],
               payment_methods_seq := k\<rparr>))"

text \<open>\<^verbatim>\<open>cursor.executemany\<close>: the statement once per row, stopping at the first error.\<close>

fun executemany :: "('r \<Rightarrow> database \<Rightarrow> py_error + database) \<Rightarrow> 'r list \<Rightarrow> database
    \<Rightarrow> py_error + database" where
  "executemany stmt [] db = Inr db"
| "executemany stmt (r # rs) db =
     (case stmt r db of Inl e \<Rightarrow> Inl e | Inr db' \<Rightarrow> executemany stmt rs db')"

subsection \<open>First-run initialisation (\<^verbatim>\<open>expense_tracker.py\<close>)\<close>

text \<open>
  The four \<^verbatim>\<open>CREATE TABLE IF NOT EXISTS\<close> statements and the two lists of defaults of
  \<^verbatim>\<open>init_db\<close>. Icons are the UTF-8 bytes of the source's emoji.
\<close>

definition init_db_users_table :: table_def where
  "init_db_users_table = \<lparr>table_name = ''users'',
     columns = [
       (''id'', ''INTEGER'', [PRIMARY_KEY_AUTOINCREMENT]),
       (''username'', ''TEXT'', [UNIQUE, NOT_NULL]),
       (''password'', ''TEXT'', [NOT_NULL]),
       (''created_at'', ''TIMESTAMP'', [DEFAULT_CURRENT_TIMESTAMP])],
     table_constraints = []\<rparr>"

definition init_db_expenses_table :: table_def where
  "init_db_expenses_table = \<lparr>table_name = ''expenses'',
     columns = [
       (''id'', ''INTEGER'', [PRIMARY_KEY_AUTOINCREMENT]),
       (''user_id'', ''INTEGER'', [NOT_NULL]),
       (''date'', ''TEXT'', [NOT_NULL]),
       (''amount'', ''REAL'', [NOT_NULL, CHECK_GT_0]),
       (''category'', ''TEXT'', [NOT_NULL]),
       (''description'', ''TEXT'', [DEFAULT_TEXT []]),
       (''tags'', ''TEXT'', [DEFAULT_TEXT []]),
       (''payment_method'', ''TEXT'', [DEFAULT_TEXT ''Cash'']),
       (''recurring'', ''BOOLEAN'', [DEFAULT_INT 0]),
       (''created_at'', ''TIMESTAMP'', [DEFAULT_CURRENT_TIMESTAMP]),
       (''updated_at'', ''TIMESTAMP'', [DEFAULT_CURRENT_TIMESTAMP])],
     table_constraints = [FOREIGN_KEY_ON_DELETE_CASCADE ''user_id'' ''users'' ''id'']\<rparr>"

definition init_db_categories_table :: table_def where
  "init_db_categories_table = \<lparr>table_name = ''categories'',
     columns = [
       (''id'', ''INTEGER'', [PRIMARY_KEY_AUTOINCREMENT]),
       (''name'', ''TEXT'', [UNIQUE, NOT_NULL]),
       (''budget'', ''REAL'', [DEFAULT_INT 0]),
       (''color'', ''TEXT'', [DEFAULT_TEXT ''#FF6B6B'']),
       (''icon'', ''TEXT'', [DEFAULT_TEXT [CHR 0xF0, CHR 0x9F, CHR 0x92, CHR 0xB0]]),
       (''created_at'', ''TIMESTAMP'', [DEFAULT_CURRENT_TIMESTAMP])],
     table_constraints = []\<rparr>"

definition init_db_payment_methods_table :: table_def where
  "init_db_payment_methods_table = \<lparr>table_name = ''payment_methods'',
     columns = [
       (''id'', ''INTEGER'', [PRIMARY_KEY_AUTOINCREMENT]),
       (''name'', ''TEXT'', [UNIQUE, NOT_NULL]),
       (''type'', ''TEXT'', [DEFAULT_TEXT ''Cash''])],
     table_constraints = []\<rparr>"

definition init_db_default_categories :: "(string \<times> rat \<times> string \<times> string) list" where
  "init_db_default_categories = [
     (''Food'', 300, ''#FF6B6B'', [CHR 0xF0, CHR 0x9F, CHR 0x8D, CHR 0x94]),
     (''Transportation'', 150, ''#4ECDC4'', [CHR 0xF0, CHR 0x9F, CHR 0x9A, CHR 0x97]),
     (''Housing'', 800, ''#45B7D1'', [CHR 0xF0, CHR 0x9F, CHR 0x8F, CHR 0xA0]),
     (''Entertainment'', 200, ''#96CEB4'', [CHR 0xF0, CHR 0x9F, CHR 0x8E, CHR 0xAC]),
     (''Utilities'', 250, ''#FFE6A7'', [CHR 0xE2, CHR 0x9A, CHR 0xA1]),
     (''Healthcare'', 200, ''#D3D3D3'', [CHR 0xF0, CHR 0x9F, CHR 0x8F, CHR 0xA5]),
     (''Shopping'', 300, ''#FFB6C1'',
        [CHR 0xF0, CHR 0x9F, CHR 0x9B, CHR 0x8D, CHR 0xEF, CHR 0xB8, CHR 0x8F]),
     (''Education'', 150, ''#87CEEB'', [CHR 0xF0, CHR 0x9F, CHR 0x93, CHR 0x9A]),
     (''Others'', 100, ''#D3D3D3'', [CHR 0xF0, CHR 0x9F, CHR 0x92, CHR 0xBC])]"

definition init_db_default_payments :: "(string \<times> string) list" where
  "init_db_default_payments = [
     (''Cash'', ''Cash''),
     (''Credit Card'', ''Card''),
     (''Debit Card'', ''Card''),
     (''Bank Transfer'', ''Digital''),
     (''Mobile Payment'', ''Digital''),
     (''Check'', ''Other'')]"

text \<open>
  \<^verbatim>\<open>init_db\<close>: creates the tables that are missing, then seeds each reference table
  only when it is empty. Nothing catches an exception here.
\<close>

definition init_db :: "nat \<Rightarrow> database \<Rightarrow> py_error + database" where
  "init_db ts db =
     (let db1 = create_table_if_not_exists init_db_users_table db;
          db2 = create_table_if_not_exists init_db_expenses_table db1;
          db3 = create_table_if_not_exists init_db_categories_table db2;
          db4 = create_table_if_not_exists init_db_payment_methods_table db3
      in case (if length (categories db4) = 0
               then executemany (insert_category ts) init_db_default_categories db4
               else Inr db4) of
           Inl e \<Rightarrow> Inl e
         | Inr db5 \<Rightarrow>
             (if length (payment_methods db5) = 0
              then executemany insert_payment_method init_db_default_payments db5
              else Inr db5))"

subsection \<open>The reset utility (\<^verbatim>\<open>database_reset.py\<close>)\<close>

text \<open>The \<^verbatim>\<open>CREATE TABLE\<close> statements and the lists of defaults of \<^verbatim>\<open>reset_database\<close>.\<close>

definition reset_users_table :: table_def where
  "reset_users_table = \<lparr>table_name = ''users'',
     columns = [
       (''id'', ''INTEGER'', [PRIMARY_KEY_AUTOINCREMENT]),
       (''username'', ''TEXT'', [UNIQUE, NOT_NULL]),
       (''password'', ''TEXT'', [NOT_NULL]),
       (''created_at'', ''TIMESTAMP'', [DEFAULT_CURRENT_TIMESTAMP])],
     table_constraints = []\<rparr>"

definition reset_expenses_table :: table_def where
  "reset_expenses_table = \<lparr>table_name = ''expenses'',
     columns = [
       (''id'', ''INTEGER'', [PRIMARY_KEY_AUTOINCREMENT]),
       (''user_id'', ''INTEGER'', [NOT_NULL]),
       (''date'', ''TEXT'', [NOT_NULL]),
       (''amount'', ''REAL'', [NOT_NULL, CHECK_GT_0]),
       (''category'', ''TEXT'', [NOT_NULL]),
       (''description'', ''TEXT'', [DEFAULT_TEXT []]),
       (''tags'', ''TEXT'', [DEFAULT_TEXT []]),
       (''payment_method'', ''TEXT'', [DEFAULT_TEXT ''Cash'']),
       (''recurring'', ''BOOLEAN'', [DEFAULT_INT 0]),
       (''created_at'', ''TIMESTAMP'', [DEFAULT_CURRENT_TIMESTAMP]),
       (''updated_at'', ''TIMESTAMP'', [DEFAULT_CURRENT_TIMESTAMP])],
     table_constraints = [FOREIGN_KEY_ON_DELETE_CASCADE ''user_id'' ''users'' ''id'']\<rparr>"

definition reset_categories_table :: table_def where
  "reset_categories_table = \<lparr>table_name = ''categories'',
     columns = [
       (''id'', ''INTEGER'', [PRIMARY_KEY_AUTOINCREMENT]),
       (''name'', ''TEXT'', [UNIQUE, NOT_NULL]),
       (''budget'', ''REAL'', [DEFAULT_INT 0]),
       (''color'', ''TEXT'', [DEFAULT_TEXT ''#FF6B6B'']),
       (''icon'', ''TEXT'', [DEFAULT_TEXT [CHR 0xF0, CHR 0x9F, CHR 0x92, CHR 0xB0]]),
       (''created_at'', ''TIMESTAMP'', [DEFAULT_CURRENT_TIMESTAMP])],
     table_constraints = []\<rparr>"

definition reset_payment_methods_table :: table_def where
  "reset_payment_methods_table = \<lparr>table_name = ''payment_methods'',
     columns = [
       (''id'', ''INTEGER'', [PRIMARY_KEY_AUTOINCREMENT]),
       (''name'', ''TEXT'', [UNIQUE, NOT_NULL]),
       (''type'', ''TEXT'', [DEFAULT_TEXT ''Cash''])],
     table_constraints = []\<rparr>"

definition reset_default_categories :: "(string \<times> rat \<times> string \<times> string) list" where
  "reset_default_categories = [
     (''Food'', 300, ''#FF6B6B'', [CHR 0xF0, CHR 0x9F, CHR 0x8D, CHR 0x94]),
     (''Transportation'', 150, ''#4ECDC4'', [CHR 0xF0, CHR 0x9F, CHR 0x9A, CHR 0x97]),
     (''Housing'', 800, ''#45B7D1'', [CHR 0xF0, CHR 0x9F, CHR 0x8F, CHR 0xA0]),
     (''Entertainment'', 200, ''#96CEB4'', [CHR 0xF0, CHR 0x9F, CHR 0x8E, CHR 0xAC]),
     (''Utilities'', 250, ''#FFE6A7'', [CHR 0xE2, CHR 0x9A, CHR 0xA1]),
     (''Healthcare'', 200, ''#D3D3D3'', [CHR 0xF0, CHR 0x9F, CHR 0x8F, CHR 0xA5]),
     (''Shopping'', 300, ''#FFB6C1'',
        [CHR 0xF0, CHR 0x9F, CHR 0x9B, CHR 0x8D, CHR 0xEF, CHR 0xB8, CHR 0x8F]),
     (''Education'', 150, ''#87CEEB'', [CHR 0xF0, CHR 0x9F, CHR 0x93, CHR 0x9A]),
     (''Others'', 100, ''#D3D3D3'', [CHR 0xF0, CHR 0x9F, CHR 0x92, CHR 0xBC])]"

definition reset_default_payments :: "(string \<times> string) list" where
  "reset_default_payments = [
     (''Cash'', ''Cash''),
     (''Credit Card'', ''Card''),
     (''Debit Card'', ''Card''),
     (''Bank Transfer'', ''Digital''),
     (''Mobile Payment'', ''Digital''),
     (''Check'', ''Other'')]"

text \<open>
  \<^verbatim>\<open>reset_database\<close>: removes the database file when there is one, so whatever the
  database held, the statements run on an empty one.
\<close>

definition reset_database :: "nat \<Rightarrow> database \<Rightarrow> py_error + database" where
  "reset_database ts db =
     (case create_table reset_users_table empty_database of Inl e \<Rightarrow> Inl e | Inr db1 \<Rightarrow>
      case create_table reset_expenses_table db1 of Inl e \<Rightarrow> Inl e | Inr db2 \<Rightarrow>
      case create_table reset_categories_table db2 of Inl e \<Rightarrow> Inl e | Inr db3 \<Rightarrow>
      case create_table reset_payment_methods_table db3 of Inl e \<Rightarrow> Inl e | Inr db4 \<Rightarrow>
      case executemany (insert_category ts) reset_default_categories db4 of
        Inl e \<Rightarrow> Inl e
      | Inr db5 \<Rightarrow> executemany insert_payment_method reset_default_payments db5)"

subsection \<open>Expense CRUD\<close>

text \<open>A statement on a table that was never created raises \<^verbatim>\<open>sqlite3.OperationalError\<close>.\<close>

definition table_exists :: "string \<Rightarrow> database \<Rightarrow> bool" where
  "table_exists n db = (n \<in> set (map table_name (tables db)))"

text \<open>
  The \<^verbatim>\<open>INSERT INTO expenses\<close> of \<^verbatim>\<open>add_expense\<close>. Without the table the statement
  does not compile (OperationalError); with it, the column constraint
  \<^verbatim>\<open>CHECK(amount > 0)\<close> raises \<^verbatim>\<open>sqlite3.IntegrityError\<close>. The two timestamps take
  their default, the current second.
\<close>

definition insert_expense ::
  "nat \<Rightarrow> int \<Rightarrow> string \<Rightarrow> rat \<Rightarrow> string \<Rightarrow> string \<Rightarrow> string \<Rightarrow> string \<Rightarrow> int \<Rightarrow> database
    \<Rightarrow> py_error + database" where
  "insert_expense ts uid dt amt cat descr tgs pm recur db =
     (if \<not> table_exists ''expenses'' db then Inl OperationalError
      else if \<not> 0 < amt then Inl IntegrityError
      else
        let k = next_rowid (expenses_seq db) (map expense_id (expenses db))
        in Inr (db\<lparr>expenses := expenses db @
              [\<lparr>expense_id = k, user_id = uid, date = dt, amount = amt, category = cat,
                description = descr, tags = tgs, payment_method = pm, recurring = recur,
                created_at = ts, updated_at = ts\<rparr>],
             expenses_seq := k\<rparr>))"

text \<open>
  \<^verbatim>\<open>add_expense\<close>: True after the commit; any exception is caught, reported and
  answered with False. \<^verbatim>\<open>int(recurring)\<close> is 1 or 0.
\<close>

definition add_expense ::
  "nat \<Rightarrow> int \<Rightarrow> string \<Rightarrow> rat \<Rightarrow> string \<Rightarrow> string \<Rightarrow> string \<Rightarrow> string \<Rightarrow> bool \<Rightarrow> database
    \<Rightarrow> bool \<times> database" where
  "add_expense ts uid dt amt cat descr tgs pm recur db =
     (case insert_expense ts uid dt amt cat descr tgs pm (if recur then 1 else 0) db of
        Inr db' \<Rightarrow> (True, db')
      | Inl e \<Rightarrow> (False, db))"

text \<open>
  The \<^verbatim>\<open>UPDATE expenses SET ... WHERE id = ? AND user_id = ?\<close> of \<^verbatim>\<open>update_expense\<close>,
  with its \<^verbatim>\<open>cursor.rowcount\<close>, the number of rows the WHERE clause selects. The CHECK
  constraint is tested on each row written, so only when a row is selected.
  \<open>set_clause\<close> is the SET list applied to one row. Rows exist only in a table that
  exists; without the table the statement raises, \<^verbatim>\<open>update_expense\<close> answers False and
  nothing changes, which is what the model gives when no row is selected (and likewise
  for the DELETE below).
\<close>

definition set_clause ::
  "nat \<Rightarrow> string \<Rightarrow> rat \<Rightarrow> string \<Rightarrow> string \<Rightarrow> string \<Rightarrow> string \<Rightarrow> int \<Rightarrow> expense \<Rightarrow> expense" where
  "set_clause ts dt amt cat descr tgs pm recur e =
     e\<lparr>date := dt, amount := amt, category := cat, description := descr, tags := tgs,
       payment_method := pm, recurring := recur, updated_at := ts\<rparr>"

definition update_stmt ::
  "nat \<Rightarrow> string \<Rightarrow> rat \<Rightarrow> string \<Rightarrow> string \<Rightarrow> string \<Rightarrow> string \<Rightarrow> int \<Rightarrow> int \<Rightarrow> int \<Rightarrow> database
    \<Rightarrow> py_error + database \<times> nat" where
  "update_stmt ts dt amt cat descr tgs pm recur eid uid db =
     (let hit = (\<lambda>e. expense_id e = eid \<and> user_id e = uid);
          rowcount = length (filter hit (expenses db))
      in if 0 < rowcount \<and> \<not> 0 < amt then Inl IntegrityError
         else Inr (db\<lparr>expenses :=
                 map (\<lambda>e. if hit e then set_clause ts dt amt cat descr tgs pm recur e else e)
                   (expenses db)\<rparr>,
               rowcount))"

definition update_expense ::
  "nat \<Rightarrow> int \<Rightarrow> int \<Rightarrow> string \<Rightarrow> rat \<Rightarrow> string \<Rightarrow> string \<Rightarrow> string \<Rightarrow> string \<Rightarrow> bool \<Rightarrow> database
    \<Rightarrow> bool \<times> database" where
  "update_expense ts uid eid dt amt cat descr tgs pm recur db =
     (case update_stmt ts dt amt cat descr tgs pm (if recur then 1 else 0) eid uid db of
        Inr (db', rowcount) \<Rightarrow> (0 < rowcount, db')
      | Inl e \<Rightarrow> (False, db))"

text \<open>The \<^verbatim>\<open>DELETE FROM expenses WHERE id = ? AND user_id = ?\<close> and its rowcount.\<close>

definition delete_stmt :: "int \<Rightarrow> int \<Rightarrow> database \<Rightarrow> database \<times> nat" where
  "delete_stmt eid uid db =
     (let hit = (\<lambda>e. expense_id e = eid \<and> user_id e = uid)
      in (db\<lparr>expenses := filter (\<lambda>e. \<not> hit e) (expenses db)\<rparr>,
          length (filter hit (expenses db))))"

definition delete_expense :: "int \<Rightarrow> int \<Rightarrow> database \<Rightarrow> bool \<times> database" where
  "delete_expense uid eid db =
     (case delete_stmt eid uid db of (db', rowcount) \<Rightarrow> (0 < rowcount, db'))"

text \<open>
  The submit branch of \<^verbatim>\<open>render_add_expense\<close>: the form's amount reaches
  \<^verbatim>\<open>add_expense\<close> only when it is positive. The three things the form can do are kept
  apart: it called \<^verbatim>\<open>add_expense\<close> and showed the success message; it called
  \<^verbatim>\<open>add_expense\<close>, which failed and reported its own error; or it made no storage call
  and showed \<^verbatim>\<open>Amount must be greater than 0\<close>. The date widget's value is formatted with
  \<^verbatim>\<open>%Y-%m-%d\<close>.
\<close>

datatype form_outcome =
    Expense_added_successfully | Add_expense_failed | Amount_must_be_greater_than_0

definition render_add_expense ::
  "nat \<Rightarrow> int \<Rightarrow> pydate \<Rightarrow> rat \<Rightarrow> string \<Rightarrow> string \<Rightarrow> string \<Rightarrow> string \<Rightarrow> bool \<Rightarrow> database
    \<Rightarrow> form_outcome \<times> database" where
  "render_add_expense ts uid d amt cat descr tgs pm recur db =
     (if 0 < amt then
        (case add_expense ts uid (strftime_Ymd d) amt cat descr tgs pm recur db of
           (True, db') \<Rightarrow> (Expense_added_successfully, db')
         | (False, db') \<Rightarrow> (Add_expense_failed, db'))
      else (Amount_must_be_greater_than_0, db))"

subsection \<open>Reading expenses\<close>

text \<open>
  \<^verbatim>\<open>ORDER BY date DESC, id DESC\<close>: \<open>date\<close> is TEXT and compares byte by byte.
\<close>

definition order_by_date_id_desc :: "expense list \<Rightarrow> expense list" where
  "order_by_date_id_desc es = rev (sort_key (\<lambda>e. (date e, expense_id e)) es)"

text \<open>
  The conditions that \<^verbatim>\<open>render_expense_list\<close> appends to
  \<^verbatim>\<open>SELECT * FROM expenses WHERE user_id = ?\<close>, each with its parameter.
\<close>

datatype cond =
    CategoryEq string | PaymentEq string | DateGe string | DateLe string
  | AmountGe rat | AmountLe rat

fun holds :: "cond \<Rightarrow> expense \<Rightarrow> bool" where
  "holds (CategoryEq c) e = (category e = c)"
| "holds (PaymentEq p) e = (payment_method e = p)"
| "holds (DateGe d) e = (d \<le> date e)"
| "holds (DateLe d) e = (date e \<le> d)"
| "holds (AmountGe a) e = (a \<le> amount e)"
| "holds (AmountLe a) e = (amount e \<le> a)"

record filters =
  category_filter :: string
  payment_filter :: string
  date_from :: "pydate option"
  date_to :: "pydate option"
  min_amount :: rat
  max_amount :: rat

definition build_query :: "filters \<Rightarrow> cond list" where
  "build_query f =
     (if category_filter f \<noteq> ''All'' then [CategoryEq (category_filter f)] else []) @
     (if payment_filter f \<noteq> ''All'' then [PaymentEq (payment_filter f)] else []) @
     (case date_from f of Some d \<Rightarrow> [DateGe (strftime_Ymd d)] | None \<Rightarrow> []) @
     (case date_to f of Some d \<Rightarrow> [DateLe (strftime_Ymd d)] | None \<Rightarrow> []) @
     (if 0 < min_amount f then [AmountGe (min_amount f)] else []) @
     (if 0 < max_amount f then [AmountLe (max_amount f)] else [])"

text \<open>
  \<^verbatim>\<open>get_expenses\<close>: without a query, all of the user's expenses; with one, the user
  identifier is the first parameter of the caller's statement. The Python function runs
  whatever SQL text it is given; the program's one caller passes the statement above,
  so a query is the list of its added conditions.
\<close>

definition get_expenses :: "int \<Rightarrow> cond list option \<Rightarrow> database \<Rightarrow> expense list" where
  "get_expenses uid query db =
     (case query of
        None \<Rightarrow> order_by_date_id_desc (filter (\<lambda>e. user_id e = uid) (expenses db))
      | Some cs \<Rightarrow>
          order_by_date_id_desc
            (filter (\<lambda>e. user_id e = uid \<and> list_all (\<lambda>c. holds c e) cs) (expenses db)))"

text \<open>The read of \<^verbatim>\<open>render_expense_list\<close>: filtered only when the button was pressed.\<close>

definition render_expense_list_read :: "int \<Rightarrow> bool \<Rightarrow> filters \<Rightarrow> database \<Rightarrow> expense list" where
  "render_expense_list_read uid apply_filters f db =
     get_expenses uid (if apply_filters then Some (build_query f) else None) db"

subsection \<open>Reports\<close>

text \<open>SQL's \<^verbatim>\<open>SUM\<close> is NULL over no rows; Python's \<^verbatim>\<open>x or 0\<close> is 0 for None and for 0.\<close>

definition sql_sum :: "rat list \<Rightarrow> rat option" where
  "sql_sum xs = (if xs = [] then None else Some (sum_list xs))"

definition or_0 :: "rat option \<Rightarrow> rat" where
  "or_0 v = (case v of None \<Rightarrow> 0 | Some x \<Rightarrow> if x = 0 then 0 else x)"

definition coalesce_0 :: "rat option \<Rightarrow> rat" where
  "coalesce_0 v = (case v of None \<Rightarrow> 0 | Some x \<Rightarrow> x)"

text \<open>
  The previous-month key of \<^verbatim>\<open>get_monthly_summary\<close>:
  \<^verbatim>\<open>(datetime.now().replace(day=1) - timedelta(days=1)).strftime("%Y-%m")\<close>.
\<close>

definition last_month_date :: "pydate \<Rightarrow> py_error + pydate" where
  "last_month_date now =
     (case replace_day now 1 of Inl e \<Rightarrow> Inl e | Inr first \<Rightarrow> sub_one_day first)"

definition last_month :: "pydate \<Rightarrow> py_error + string" where
  "last_month now =
     (case last_month_date now of Inl e \<Rightarrow> Inl e | Inr d \<Rightarrow> Inr (strftime_Ym d))"

text \<open>
  \<^verbatim>\<open>get_monthly_summary\<close>: (current total, previous total, current count). Both keys are
  computed inside the \<^verbatim>\<open>try\<close>, and so are the two SELECT statements, which raise when
  the table is missing: any exception there gives \<open>(0, 0, 0)\<close>.
\<close>

definition get_monthly_summary :: "pydate \<Rightarrow> int \<Rightarrow> database \<Rightarrow> rat \<times> rat \<times> nat" where
  "get_monthly_summary now uid db =
     (let current_month = strftime_Ym now
      in case last_month now of
           Inl e \<Rightarrow> (0, 0, 0)
         | Inr last_month_key \<Rightarrow>
             if \<not> table_exists ''expenses'' db then (0, 0, 0)
             else
               (let current_rows =
                      filter (\<lambda>e. user_id e = uid \<and> like (current_month @ ''%'') (date e))
                        (expenses db);
                    current_total = or_0 (sql_sum (map amount current_rows));
                    current_count = length current_rows;
                    last_rows =
                      filter (\<lambda>e. user_id e = uid \<and> like (last_month_key @ ''%'') (date e))
                        (expenses db);
                    last_total = or_0 (sql_sum (map amount last_rows))
                in (current_total, last_total, current_count)))"

text \<open>
  A pandas float: the division of two columns does not raise on a zero divisor, it
  gives an infinity or NaN (IEEE 754).
\<close>

datatype pdfloat = Finite rat | PosInf | NegInf | NaN

definition pd_div :: "rat \<Rightarrow> rat \<Rightarrow> pdfloat" where
  "pd_div a b =
     (if b \<noteq> 0 then Finite (a / b)
      else if 0 < a then PosInf else if a < 0 then NegInf else NaN)"

definition pd_times_100 :: "pdfloat \<Rightarrow> pdfloat" where
  "pd_times_100 x = (case x of Finite a \<Rightarrow> Finite (a * 100) | PosInf \<Rightarrow> PosInf
     | NegInf \<Rightarrow> NegInf | NaN \<Rightarrow> NaN)"

text \<open>\<^verbatim>\<open>round(1)\<close>: to the nearest tenth, a tie to the even one.\<close>

definition rint :: "rat \<Rightarrow> int" where
  "rint x =
     (let f = \<lfloor>x\<rfloor>; r = x - of_int f
      in if r < 1 / 2 then f else if 1 / 2 < r then f + 1 else if even f then f else f + 1)"

definition pd_round_1 :: "pdfloat \<Rightarrow> pdfloat" where
  "pd_round_1 x = (case x of Finite a \<Rightarrow> Finite (of_int (rint (a * 10)) / 10) | PosInf \<Rightarrow> PosInf
     | NegInf \<Rightarrow> NegInf | NaN \<Rightarrow> NaN)"

record performance_row = budget_fields +
  spent :: rat
  remaining :: rat
  percentage :: pdfloat
  status :: string

text \<open>
  The query of \<^verbatim>\<open>get_budget_performance\<close>. \<open>left_join\<close> pairs every category with each
  expense that satisfies the ON condition, or with NULL when none does.
\<close>

definition left_join ::
  "category_row list \<Rightarrow> expense list \<Rightarrow> (category_row \<Rightarrow> expense \<Rightarrow> bool)
    \<Rightarrow> (category_row \<times> expense option) list" where
  "left_join cs es on =
     concat (map (\<lambda>c. let ms = filter (on c) es
                       in if ms = [] then [(c, None)] else map (\<lambda>e. (c, Some e)) ms) cs)"

definition group_key :: "category_row \<Rightarrow> budget_fields" where
  "group_key c = \<lparr>name = name c, budget = budget c, color = color c, icon = icon c\<rparr>"

text \<open>\<^verbatim>\<open>SUM(e.amount)\<close> over one group of joined rows: NULL amounts do not count.\<close>

definition group_amounts ::
  "(category_row \<times> expense option) list \<Rightarrow> budget_fields \<Rightarrow> rat list" where
  "group_amounts joined k =
     concat (map (\<lambda>(c, eo). case eo of None \<Rightarrow> [] | Some e \<Rightarrow> [amount e])
               (filter (\<lambda>(c, eo). group_key c = k) joined))"

definition budget_query ::
  "string \<Rightarrow> int \<Rightarrow> database \<Rightarrow> (budget_fields \<times> rat) list" where
  "budget_query pattern uid db =
     (let joined = left_join (categories db) (expenses db)
            (\<lambda>c e. name c = category e \<and> like pattern (date e) \<and> user_id e = uid);
          groups = remdups (map (\<lambda>(c, eo). group_key c) joined)
      in map (\<lambda>k. (k, coalesce_0 (sql_sum (group_amounts joined k))))
           (sort_key name groups))"

text \<open>
  \<^verbatim>\<open>get_budget_performance\<close>: the three computed columns, row by row. (On an empty
  frame the source adds no columns; there are no rows then.) The query raises when one
  of its two tables is missing, and the \<^verbatim>\<open>except\<close> branch returns an empty frame.
\<close>

definition get_budget_performance :: "pydate \<Rightarrow> int \<Rightarrow> database \<Rightarrow> performance_row list" where
  "get_budget_performance now uid db =
     (let current_month = strftime_Ym now
      in if \<not> (table_exists ''categories'' db \<and> table_exists ''expenses'' db) then []
         else
           map (\<lambda>(k, s).
                 let rem = budget k - s
                 in \<lparr>name = name k, budget = budget k, color = color k, icon = icon k,
                     spent = s, remaining = rem,
                     percentage = pd_round_1 (pd_times_100 (pd_div s (budget k))),
                     status = (if rem < 0 then ''Over Budget'' else ''Within Budget'')\<rparr>)
             (budget_query (current_month @ ''%'') uid db))"

text \<open>
  \<^verbatim>\<open>get_category_spending\<close>: the start date is computed before the \<^verbatim>\<open>try\<close>. Groups come
  in the order of their category text and are then sorted by total, largest first.
  Without the table the query raises and the \<^verbatim>\<open>except\<close> branch returns an empty frame.
\<close>

definition group_by_category :: "expense list \<Rightarrow> (string \<times> rat \<times> nat) list" where
  "group_by_category rows =
     map (\<lambda>c. let g = filter (\<lambda>e. category e = c) rows
               in (c, sum_list (map amount g), length g))
       (sort (remdups (map category rows)))"

definition get_category_spending ::
  "pydate \<Rightarrow> int \<Rightarrow> nat \<Rightarrow> database \<Rightarrow> py_error + (string \<times> rat \<times> nat) list" where
  "get_category_spending now uid days db =
     (case sub_days now days of
        Inl e \<Rightarrow> Inl e
      | Inr start \<Rightarrow>
          if \<not> table_exists ''expenses'' db then Inr []
          else
            let start_date = strftime_Ymd start;
                rows = filter (\<lambda>e. user_id e = uid \<and> start_date \<le> date e) (expenses db)
            in Inr (sort_key (\<lambda>(c, total, n). - total) (group_by_category rows)))"

text \<open>
  The monthly trend query of \<^verbatim>\<open>render_reports\<close>. SQLite's date functions are arguments:
  \<open>start_of_month\<close> is \<^verbatim>\<open>DATE(date, 'start of month')\<close> (NULL for text that is no date)
  and \<open>since\<close> is \<^verbatim>\<open>date('now', '-N months')\<close>. NULL sorts first. The query is not
  inside a \<^verbatim>\<open>try\<close>: without the table it raises.
\<close>

definition monthly_trends ::
  "(string \<Rightarrow> string option) \<Rightarrow> string \<Rightarrow> int \<Rightarrow> database
    \<Rightarrow> py_error + (string option \<times> rat \<times> nat) list" where
  "monthly_trends start_of_month since uid db =
     (if \<not> table_exists ''expenses'' db then Inl OperationalError
      else
        let rows = filter (\<lambda>e. user_id e = uid \<and> since \<le> date e) (expenses db)
        in Inr (map (\<lambda>m. let g = filter (\<lambda>e. start_of_month (date e) = m) rows
                         in (m, sum_list (map amount g), length g))
                  (sort (remdups (map (\<lambda>e. start_of_month (date e)) rows)))))"

subsection \<open>Sequences of writes\<close>

text \<open>
  What a session can do to the expenses: submit the add form, or call one of the three
  writing functions with any arguments. \<open>handle_all\<close> runs such requests in order.
\<close>

datatype request =
    SubmitAddForm nat int pydate rat string string string string bool
  | CallAdd nat int string rat string string string string bool
  | CallUpdate nat int int string rat string string string string bool
  | CallDelete int int

fun handle :: "request \<Rightarrow> database \<Rightarrow> database" where
  "handle (SubmitAddForm ts uid d amt cat descr tgs pm recur) db =
     snd (render_add_expense ts uid d amt cat descr tgs pm recur db)"
| "handle (CallAdd ts uid dt amt cat descr tgs pm recur) db =
     snd (add_expense ts uid dt amt cat descr tgs pm recur db)"
| "handle (CallUpdate ts uid eid dt amt cat descr tgs pm recur) db =
     snd (update_expense ts uid eid dt amt cat descr tgs pm recur db)"
| "handle (CallDelete uid eid) db = snd (delete_expense uid eid db)"

fun handle_all :: "request list \<Rightarrow> database \<Rightarrow> database" where
  "handle_all [] db = db"
| "handle_all (r # rs) db = handle_all rs (handle r db)"

subsection \<open>A small database\<close>

text \<open>
  The database after the first run and one expense of user 1, added at second 7; used
  for the concrete instances below.
\<close>

definition seeded_database :: database where
  "seeded_database = (case init_db 5 empty_database of Inr d \<Rightarrow> d | Inl e \<Rightarrow> empty_database)"

definition one_expense_database :: database where
  "one_expense_database =
     snd (add_expense 7 1 ''2024-03-15'' (85 / 2) ''Food'' [] [] ''Cash'' False seeded_database)"

section \<open>Properties\<close>

subsection \<open>The two seeders\<close>

lemma default_rows_agree:
  "reset_default_categories = init_db_default_categories
   \<and> reset_default_payments = init_db_default_payments"
  by (simp add: reset_default_categories_def init_db_default_categories_def
      reset_default_payments_def init_db_default_payments_def)

lemma table_definitions_agree:
  "reset_users_table = init_db_users_table
   \<and> reset_expenses_table = init_db_expenses_table
   \<and> reset_categories_table = init_db_categories_table
   \<and> reset_payment_methods_table = init_db_payment_methods_table"
  by (simp add: reset_users_table_def init_db_users_table_def reset_expenses_table_def
      init_db_expenses_table_def reset_categories_table_def init_db_categories_table_def
      reset_payment_methods_table_def init_db_payment_methods_table_def)

lemma reset_database_result:
  "\<exists>d. reset_database ts db = Inr d
     \<and> tables d = [reset_users_table, reset_expenses_table, reset_categories_table,
          reset_payment_methods_table]
     \<and> map (\<lambda>c. (name c, budget c, color c, icon c)) (categories d) = reset_default_categories
     \<and> map (\<lambda>p. (payment_name p, payment_type p)) (payment_methods d) = reset_default_payments
     \<and> expenses d = []"
  by (simp add: reset_database_def create_table_def empty_database_def reset_users_table_def
      reset_expenses_table_def reset_categories_table_def reset_payment_methods_table_def
      reset_default_categories_def reset_default_payments_def insert_category_def
      insert_payment_method_def next_rowid_def Let_def)

lemma init_db_first_run:
  "\<exists>d. init_db ts empty_database = Inr d
     \<and> tables d = [init_db_users_table, init_db_expenses_table, init_db_categories_table,
          init_db_payment_methods_table]
     \<and> map (\<lambda>c. (name c, budget c, color c, icon c)) (categories d) = init_db_default_categories
     \<and> map (\<lambda>p. (payment_name p, payment_type p)) (payment_methods d) = init_db_default_payments
     \<and> expenses d = []"
  by (simp add: init_db_def create_table_if_not_exists_def empty_database_def
      init_db_users_table_def init_db_expenses_table_def init_db_categories_table_def
      init_db_payment_methods_table_def init_db_default_categories_def
      init_db_default_payments_def insert_category_def insert_payment_method_def
      next_rowid_def Let_def)

lemma reset_is_first_run: "reset_database ts db = init_db ts empty_database"
  by (simp add: init_db_def create_table_if_not_exists_def empty_database_def
      init_db_users_table_def init_db_expenses_table_def init_db_categories_table_def
      init_db_payment_methods_table_def init_db_default_categories_def
      init_db_default_payments_def insert_category_def insert_payment_method_def
      next_rowid_def Let_def reset_database_def create_table_def reset_users_table_def
      reset_expenses_table_def reset_categories_table_def reset_payment_methods_table_def
      reset_default_categories_def reset_default_payments_def)

text \<open>
  C9. The reset utility and the first run of \<open>init_db\<close> seed alike: the four table
  definitions of the two files are equal, so are the nine default categories and the six
  default payment methods, in the same order; \<open>reset_database\<close> on any database gives
  exactly the database that \<open>init_db\<close> gives on a missing file, holding those tables and
  those rows in that order and no expense.
\<close>

theorem reset_database_seeds_like_init_db:
  "(reset_users_table = init_db_users_table
     \<and> reset_expenses_table = init_db_expenses_table
     \<and> reset_categories_table = init_db_categories_table
     \<and> reset_payment_methods_table = init_db_payment_methods_table)
   \<and> (reset_default_categories = init_db_default_categories
     \<and> length reset_default_categories = 9)
   \<and> (reset_default_payments = init_db_default_payments
     \<and> length reset_default_payments = 6)
   \<and> reset_database ts db = init_db ts empty_database
   \<and> (\<exists>d. init_db ts empty_database = Inr d
     \<and> tables d = [init_db_users_table, init_db_expenses_table, init_db_categories_table,
          init_db_payment_methods_table]
     \<and> map (\<lambda>c. (name c, budget c, color c, icon c)) (categories d) = init_db_default_categories
     \<and> map (\<lambda>p. (payment_name p, payment_type p)) (payment_methods d) = init_db_default_payments
     \<and> expenses d = [])"
proof -
  have n9: "length reset_default_categories = 9"
    by (simp add: reset_default_categories_def)
  have n6: "length reset_default_payments = 6"
    by (simp add: reset_default_payments_def)
  from table_definitions_agree default_rows_agree n9 n6 reset_is_first_run [of ts db]
    init_db_first_run [of ts]
  show ?thesis by blast
qed

subsection \<open>The small database\<close>

lemma executemany_insert_category_expenses:
  "executemany (insert_category ts) rs db = Inr d \<Longrightarrow>
   expenses d = expenses db \<and> expenses_seq d = expenses_seq db"
proof (induction rs arbitrary: db)
  case Nil
  then show ?case by simp
next
  case (Cons r rs)
  then show ?case
    by (cases r) (auto simp: insert_category_def Let_def split: sum.splits if_splits)
qed

lemma executemany_insert_payment_method_expenses:
  "executemany insert_payment_method rs db = Inr d \<Longrightarrow>
   expenses d = expenses db \<and> expenses_seq d = expenses_seq db"
proof (induction rs arbitrary: db)
  case Nil
  then show ?case by simp
next
  case (Cons r rs)
  then show ?case
    by (cases r) (auto simp: insert_payment_method_def Let_def split: sum.splits if_splits)
qed

lemma create_table_if_not_exists_rows:
  "expenses (create_table_if_not_exists t db) = expenses db
   \<and> expenses_seq (create_table_if_not_exists t db) = expenses_seq db
   \<and> categories (create_table_if_not_exists t db) = categories db
   \<and> payment_methods (create_table_if_not_exists t db) = payment_methods db"
  by (simp add: create_table_if_not_exists_def)

lemma init_db_expenses:
  assumes "init_db ts db = Inr d"
  shows "expenses d = expenses db \<and> expenses_seq d = expenses_seq db"
proof -
  define db4 where "db4 = create_table_if_not_exists init_db_payment_methods_table
     (create_table_if_not_exists init_db_categories_table
       (create_table_if_not_exists init_db_expenses_table
         (create_table_if_not_exists init_db_users_table db)))"
  have e4: "expenses db4 = expenses db \<and> expenses_seq db4 = expenses_seq db"
    by (simp add: db4_def create_table_if_not_exists_rows)
  define r5 where "r5 = (if length (categories db4) = 0
               then executemany (insert_category ts) init_db_default_categories db4
               else Inr db4)"
  have unfold: "init_db ts db = (case r5 of Inl e \<Rightarrow> Inl e
         | Inr db5 \<Rightarrow>
             (if length (payment_methods db5) = 0
              then executemany insert_payment_method init_db_default_payments db5
              else Inr db5))"
    by (simp add: init_db_def Let_def r5_def db4_def)
  from assms unfold obtain db5 where r5: "r5 = Inr db5"
    and fin: "(if length (payment_methods db5) = 0
              then executemany insert_payment_method init_db_default_payments db5
              else Inr db5) = Inr d"
    by (cases r5) auto
  from r5 have e5: "expenses db5 = expenses db4 \<and> expenses_seq db5 = expenses_seq db4"
    unfolding r5_def using executemany_insert_category_expenses
    by (auto split: if_splits)
  from fin have e6: "expenses d = expenses db5 \<and> expenses_seq d = expenses_seq db5"
    using executemany_insert_payment_method_expenses
    by (auto split: if_splits)
  from e4 e5 e6 show ?thesis by simp
qed

lemma seeded_database_expenses:
  "expenses seeded_database = [] \<and> expenses_seq seeded_database = 0"
proof (cases "init_db 5 empty_database")
  case (Inl e)
  then show ?thesis by (simp add: seeded_database_def empty_database_def)
next
  case (Inr d)
  with init_db_expenses [OF Inr] show ?thesis
    by (simp add: seeded_database_def empty_database_def)
qed

lemma seeded_database_tables: "table_exists ''expenses'' seeded_database"
proof -
  from init_db_first_run [of 5] obtain d where "init_db 5 empty_database = Inr d"
    and "tables d = [init_db_users_table, init_db_expenses_table, init_db_categories_table,
          init_db_payment_methods_table]"
    by blast
  then show ?thesis
    by (simp add: seeded_database_def table_exists_def init_db_expenses_table_def)
qed

lemma one_expense_database_rows:
  "expenses one_expense_database =
     [\<lparr>expense_id = 1, user_id = 1, date = ''2024-03-15'', amount = 85 / 2,
       category = ''Food'', description = [], tags = [], payment_method = ''Cash'',
       recurring = 0, created_at = 7, updated_at = 7\<rparr>]"
  by (simp add: one_expense_database_def add_expense_def insert_expense_def
      seeded_database_expenses seeded_database_tables next_rowid_def Let_def)

lemma one_expense_database_tables: "table_exists ''expenses'' one_expense_database"
  using seeded_database_tables
  by (simp add: one_expense_database_def add_expense_def insert_expense_def Let_def
      table_exists_def)

subsection \<open>Update and delete report what they did\<close>

lemma map_if_none: "\<forall>x \<in> set xs. \<not> P x \<Longrightarrow> map (\<lambda>x. if P x then f x else x) xs = xs"
  by (induction xs) auto

lemma filter_not_none: "\<forall>x \<in> set xs. \<not> P x \<Longrightarrow> filter (\<lambda>x. \<not> P x) xs = xs"
  by (induction xs) auto

lemma update_expense_no_row:
  "\<not> (\<exists>x \<in> set (expenses db). expense_id x = e \<and> user_id x = u) \<Longrightarrow>
   update_expense ts u e dt amt cat descr tgs pm recur db = (False, db)"
  by (simp add: update_expense_def update_stmt_def Let_def filter_empty_conv map_if_none)

lemma delete_expense_no_row:
  "\<not> (\<exists>x \<in> set (expenses db). expense_id x = e \<and> user_id x = u) \<Longrightarrow>
   delete_expense u e db = (False, db)"
  by (simp add: delete_expense_def delete_stmt_def Let_def filter_empty_conv filter_not_none)

lemma delete_expense_row:
  "\<exists>x \<in> set (expenses db). expense_id x = e \<and> user_id x = u \<Longrightarrow>
   fst (delete_expense u e db)"
  by (simp add: delete_expense_def delete_stmt_def Let_def filter_empty_conv)

lemma update_expense_row:
  "\<exists>x \<in> set (expenses db). expense_id x = e \<and> user_id x = u \<Longrightarrow>
   fst (update_expense ts u e dt amt cat descr tgs pm recur db) = (0 < amt)"
  by (simp add: update_expense_def update_stmt_def Let_def filter_empty_conv)

lemma update_expense_rejected:
  "\<not> 0 < amt \<Longrightarrow> snd (update_expense ts u e dt amt cat descr tgs pm recur db) = db"
  by (cases "\<exists>x \<in> set (expenses db). expense_id x = e \<and> user_id x = u")
     (simp_all add: update_expense_def update_stmt_def Let_def filter_empty_conv map_if_none)

text \<open>
  C4, as the claim states it, fails: the table holds the row with id 1 of user 1, yet
  \<open>update_expense\<close> for that user and id with amount 0 answers False, because the CHECK
  constraint rejects the statement.
\<close>

theorem update_existing_row_reports_failure:
  "expenses one_expense_database =
     [\<lparr>expense_id = 1, user_id = 1, date = ''2024-03-15'', amount = 85 / 2,
       category = ''Food'', description = [], tags = [], payment_method = ''Cash'',
       recurring = 0, created_at = 7, updated_at = 7\<rparr>]
   \<and> fst (update_expense 9 1 1 ''2024-03-16'' 0 ''Food'' [] [] ''Cash'' False
        one_expense_database) = False"
  by (simp add: one_expense_database_rows update_expense_def update_stmt_def Let_def)

text \<open>
  C4, amended. When no expense has the id \<open>e\<close> and the owner \<open>u\<close>, \<open>update_expense\<close>
  and \<open>delete_expense\<close> leave the database as it is and answer False. When there is
  such a row, \<open>delete_expense\<close> answers True, and \<open>update_expense\<close> answers True exactly
  when the new amount is positive; with an amount that is not positive it answers False
  and leaves the database as it is.
\<close>

theorem update_delete_report:
  "(\<not> (\<exists>x \<in> set (expenses db). expense_id x = e \<and> user_id x = u) \<longrightarrow>
      update_expense ts u e dt amt cat descr tgs pm recur db = (False, db)
      \<and> delete_expense u e db = (False, db))
   \<and> ((\<exists>x \<in> set (expenses db). expense_id x = e \<and> user_id x = u) \<longrightarrow>
      fst (delete_expense u e db)
      \<and> fst (update_expense ts u e dt amt cat descr tgs pm recur db) = (0 < amt)
      \<and> (\<not> 0 < amt \<longrightarrow>
           update_expense ts u e dt amt cat descr tgs pm recur db = (False, db)))"
  using update_expense_no_row [of db e u ts dt amt cat descr tgs pm recur]
    delete_expense_no_row [of db e u] delete_expense_row [of db e u]
    update_expense_row [of db e u ts dt amt cat descr tgs pm recur]
    update_expense_rejected [of amt ts u e dt cat descr tgs pm recur db]
  by (metis prod.collapse)

theorem update_delete_report_witness:
  "update_expense 9 1 2 ''2024-03-16'' 50 ''Food'' [] [] ''Cash'' False one_expense_database
     = (False, one_expense_database)
   \<and> delete_expense 1 2 one_expense_database = (False, one_expense_database)
   \<and> fst (delete_expense 1 1 one_expense_database)
   \<and> fst (update_expense 9 1 1 ''2024-03-16'' 50 ''Food'' [] [] ''Cash'' False
        one_expense_database)
   \<and> update_expense 9 1 1 ''2024-03-16'' 0 ''Food'' [] [] ''Cash'' False one_expense_database
     = (False, one_expense_database)"
  using update_delete_report [of one_expense_database 2 1 9 "''2024-03-16''" 50 "''Food''"
      "[]" "[]" "''Cash''" False]
    update_delete_report [of one_expense_database 1 1 9 "''2024-03-16''" 50 "''Food''"
      "[]" "[]" "''Cash''" False]
    update_delete_report [of one_expense_database 1 1 9 "''2024-03-16''" 0 "''Food''"
      "[]" "[]" "''Cash''" False]
  by (simp add: one_expense_database_rows)

subsection \<open>Creating an expense\<close>





lemma set_order_by: "set (order_by_date_id_desc es) = set es"
  by (simp add: order_by_date_id_desc_def)


lemma add_expense_positive:
  assumes "table_exists ''expenses'' db" and "0 < amt"
  shows "add_expense ts u dt amt cat descr tgs pm recur db =
    (True, db\<lparr>expenses := expenses db @
              [\<lparr>expense_id = next_rowid (expenses_seq db) (map expense_id (expenses db)),
                user_id = u, date = dt, amount = amt, category = cat,
                description = descr, tags = tgs, payment_method = pm,
                recurring = (if recur then 1 else 0),
                created_at = ts, updated_at = ts\<rparr>],
             expenses_seq := next_rowid (expenses_seq db) (map expense_id (expenses db))\<rparr>)"
  using assms by (simp add: add_expense_def insert_expense_def Let_def)

lemma add_expense_rejected:
  "\<not> (table_exists ''expenses'' db \<and> 0 < amt) \<Longrightarrow>
   add_expense ts u dt amt cat descr tgs pm recur db = (False, db)"
  by (auto simp: add_expense_def insert_expense_def)

lemma add_expense_without_table:
  "add_expense ts u dt amt cat descr tgs pm recur empty_database = (False, empty_database)"
  by (simp add: add_expense_def insert_expense_def table_exists_def empty_database_def)

lemma executemany_insert_category_tables:
  "executemany (insert_category ts) rs db = Inr d \<Longrightarrow> tables d = tables db"
proof (induction rs arbitrary: db)
  case Nil
  then show ?case by simp
next
  case (Cons r rs)
  then show ?case
    by (cases r) (auto simp: insert_category_def Let_def split: sum.splits if_splits)
qed

lemma executemany_insert_payment_method_tables:
  "executemany insert_payment_method rs db = Inr d \<Longrightarrow> tables d = tables db"
proof (induction rs arbitrary: db)
  case Nil
  then show ?case by simp
next
  case (Cons r rs)
  then show ?case
    by (cases r) (auto simp: insert_payment_method_def Let_def split: sum.splits if_splits)
qed

lemma table_exists_create:
  "table_exists n (create_table_if_not_exists t db) = (n = table_name t \<or> table_exists n db)"
  by (auto simp: table_exists_def create_table_if_not_exists_def)

text \<open>Whatever the database was, after \<open>init_db\<close> the \<^verbatim>\<open>expenses\<close> table exists.\<close>

lemma init_db_creates_expenses_table:
  assumes "init_db ts db = Inr d"
  shows "table_exists ''expenses'' d"
proof -
  define db4 where "db4 = create_table_if_not_exists init_db_payment_methods_table
     (create_table_if_not_exists init_db_categories_table
       (create_table_if_not_exists init_db_expenses_table
         (create_table_if_not_exists init_db_users_table db)))"
  have t4: "table_exists ''expenses'' db4"
    by (simp add: db4_def table_exists_create init_db_expenses_table_def)
  define r5 where "r5 = (if length (categories db4) = 0
               then executemany (insert_category ts) init_db_default_categories db4
               else Inr db4)"
  have unfold: "init_db ts db = (case r5 of Inl e \<Rightarrow> Inl e
         | Inr db5 \<Rightarrow>
             (if length (payment_methods db5) = 0
              then executemany insert_payment_method init_db_default_payments db5
              else Inr db5))"
    by (simp add: init_db_def Let_def r5_def db4_def)
  from assms unfold obtain db5 where r5: "r5 = Inr db5"
    and fin: "(if length (payment_methods db5) = 0
              then executemany insert_payment_method init_db_default_payments db5
              else Inr db5) = Inr d"
    by (cases r5) auto
  from r5 have e5: "tables db5 = tables db4"
    unfolding r5_def using executemany_insert_category_tables
    by (auto split: if_splits)
  from fin have e6: "tables d = tables db5"
    using executemany_insert_payment_method_tables
    by (auto split: if_splits)
  from t4 e5 e6 show ?thesis by (simp add: table_exists_def)
qed



subsection \<open>Updating an expense\<close>

lemma set_clause_fields:
  "expense_id (set_clause ts dt amt cat descr tgs pm r e) = expense_id e"
  "user_id (set_clause ts dt amt cat descr tgs pm r e) = user_id e"
  "created_at (set_clause ts dt amt cat descr tgs pm r e) = created_at e"
  "date (set_clause ts dt amt cat descr tgs pm r e) = dt"
  "amount (set_clause ts dt amt cat descr tgs pm r e) = amt"
  "category (set_clause ts dt amt cat descr tgs pm r e) = cat"
  "description (set_clause ts dt amt cat descr tgs pm r e) = descr"
  "tags (set_clause ts dt amt cat descr tgs pm r e) = tgs"
  "payment_method (set_clause ts dt amt cat descr tgs pm r e) = pm"
  "recurring (set_clause ts dt amt cat descr tgs pm r e) = r"
  "updated_at (set_clause ts dt amt cat descr tgs pm r e) = ts"
  by (simp_all add: set_clause_def)

lemma update_expense_positive:
  assumes "0 < amt"
  shows "fst (update_expense ts u e dt amt cat descr tgs pm recur db)
           = (\<exists>x \<in> set (expenses db). expense_id x = e \<and> user_id x = u)"
    and "expenses (snd (update_expense ts u e dt amt cat descr tgs pm recur db))
           = map (\<lambda>x. if expense_id x = e \<and> user_id x = u
                      then set_clause ts dt amt cat descr tgs pm (if recur then 1 else 0) x
                      else x) (expenses db)"
  using assms by (simp_all add: update_expense_def update_stmt_def Let_def filter_empty_conv)

text \<open>
  C7, as the claim states it, fails in its last part: the expense of user 1 was created
  at second 7; a successful \<open>update_expense\<close> in that same second stores the new field
  values, and the record read afterwards has the \<open>updated_at\<close> value 7 it had before.
\<close>

theorem update_same_second_keeps_updated_at:
  "get_expenses 1 None one_expense_database =
     [\<lparr>expense_id = 1, user_id = 1, date = ''2024-03-15'', amount = 85 / 2,
       category = ''Food'', description = [], tags = [], payment_method = ''Cash'',
       recurring = 0, created_at = 7, updated_at = 7\<rparr>]
   \<and> fst (update_expense 7 1 1 ''2024-03-16'' 50 ''Housing'' ''rent'' ''home'' ''Check'' True
        one_expense_database)
   \<and> get_expenses 1 None
       (snd (update_expense 7 1 1 ''2024-03-16'' 50 ''Housing'' ''rent'' ''home'' ''Check'' True
          one_expense_database)) =
     [\<lparr>expense_id = 1, user_id = 1, date = ''2024-03-16'', amount = 50,
       category = ''Housing'', description = ''rent'', tags = ''home'',
       payment_method = ''Check'', recurring = 1, created_at = 7, updated_at = 7\<rparr>]"
proof -
  have p: "(0::rat) < 50" by simp
  have a: "get_expenses 1 None one_expense_database = expenses one_expense_database"
    by (simp add: get_expenses_def order_by_date_id_desc_def one_expense_database_rows)
  have b: "fst (update_expense 7 1 1 ''2024-03-16'' 50 ''Housing'' ''rent'' ''home'' ''Check''
       True one_expense_database)"
    by (simp add: update_expense_positive(1) [OF p] one_expense_database_rows)
  have c: "expenses (snd (update_expense 7 1 1 ''2024-03-16'' 50 ''Housing'' ''rent'' ''home''
       ''Check'' True one_expense_database)) =
     [\<lparr>expense_id = 1, user_id = 1, date = ''2024-03-16'', amount = 50,
       category = ''Housing'', description = ''rent'', tags = ''home'',
       payment_method = ''Check'', recurring = 1, created_at = 7, updated_at = 7\<rparr>]"
    by (simp add: update_expense_positive(2) [OF p] one_expense_database_rows set_clause_def)
  have d: "get_expenses 1 None (snd (update_expense 7 1 1 ''2024-03-16'' 50 ''Housing'' ''rent''
       ''home'' ''Check'' True one_expense_database)) =
     [\<lparr>expense_id = 1, user_id = 1, date = ''2024-03-16'', amount = 50,
       category = ''Housing'', description = ''rent'', tags = ''home'',
       payment_method = ''Check'', recurring = 1, created_at = 7, updated_at = 7\<rparr>]"
    by (simp add: get_expenses_def order_by_date_id_desc_def c)
  from a b d show ?thesis by (simp add: one_expense_database_rows)
qed

lemma map_if_mem:
  "x \<in> set xs \<Longrightarrow> P x \<Longrightarrow> f x \<in> set (map (\<lambda>y. if P y then f y else y) xs)"
  by (induction xs) auto

lemma get_expenses_None_set:
  "set (get_expenses u None db) = {y \<in> set (expenses db). user_id y = u}"
  by (simp add: get_expenses_def set_order_by)

text \<open>
  C7, amended. For every expense \<open>x\<close> of user \<open>u\<close> in the table (each one was created by
  \<open>add_expense\<close>) and every new amount greater than 0, \<open>update_expense\<close> answers True; a
  read of the user's expenses afterwards holds \<open>x\<close> with the new field values, every
  record read under that identifier carries the new field values, and its \<open>updated_at\<close>
  is the clock second of the update (its \<open>created_at\<close> is kept). So \<open>updated_at\<close> differs
  from its earlier value whenever the update runs at another second than the one stored.
\<close>

theorem update_then_read:
  assumes "x \<in> set (expenses db)" and "user_id x = u" and "0 < amt"
  shows "fst (update_expense ts u (expense_id x) dt amt cat descr tgs pm recur db)
     \<and> set_clause ts dt amt cat descr tgs pm (if recur then 1 else 0) x
        \<in> set (get_expenses u None
             (snd (update_expense ts u (expense_id x) dt amt cat descr tgs pm recur db)))
     \<and> (\<forall>y \<in> set (get_expenses u None
             (snd (update_expense ts u (expense_id x) dt amt cat descr tgs pm recur db))).
          expense_id y = expense_id x \<longrightarrow>
            date y = dt \<and> amount y = amt \<and> category y = cat \<and> description y = descr
            \<and> tags y = tgs \<and> payment_method y = pm
            \<and> recurring y = (if recur then 1 else 0) \<and> updated_at y = ts)
     \<and> updated_at (set_clause ts dt amt cat descr tgs pm (if recur then 1 else 0) x) = ts
     \<and> created_at (set_clause ts dt amt cat descr tgs pm (if recur then 1 else 0) x)
         = created_at x"
proof -
  let ?r = "if recur then 1 else (0::int)"
  let ?f = "set_clause ts dt amt cat descr tgs pm ?r"
  let ?db' = "snd (update_expense ts u (expense_id x) dt amt cat descr tgs pm recur db)"
  have e: "expenses ?db' =
      map (\<lambda>y. if expense_id y = expense_id x \<and> user_id y = u then ?f y else y) (expenses db)"
    by (rule update_expense_positive(2) [OF assms(3)])
  have a: "fst (update_expense ts u (expense_id x) dt amt cat descr tgs pm recur db)"
    using assms(1,2) by (simp add: update_expense_positive(1) [OF assms(3)]) blast
  have "?f x \<in> set (expenses ?db')"
    unfolding e using assms(1,2)
    by (intro map_if_mem [of x "expenses db" "\<lambda>y. expense_id y = expense_id x \<and> user_id y = u"])
      simp_all
  moreover have "user_id (?f x) = u"
    using assms(2) by (simp add: set_clause_fields)
  ultimately have b: "?f x \<in> set (get_expenses u None ?db')"
    unfolding get_expenses_None_set by simp
  have c: "date y = dt \<and> amount y = amt \<and> category y = cat \<and> description y = descr
            \<and> tags y = tgs \<and> payment_method y = pm \<and> recurring y = ?r \<and> updated_at y = ts"
    if y: "y \<in> set (get_expenses u None ?db')" and i: "expense_id y = expense_id x" for y
  proof -
    from y have y1: "y \<in> set (expenses ?db')" and y2: "user_id y = u"
      unfolding get_expenses_None_set by simp_all
    from y1 obtain z where z: "z \<in> set (expenses db)"
      and yz: "y = (if expense_id z = expense_id x \<and> user_id z = u then ?f z else z)"
      unfolding e by (auto simp: image_iff)
    show ?thesis
    proof (cases "expense_id z = expense_id x \<and> user_id z = u")
      case True
      with yz have "y = ?f z" by simp
      then show ?thesis by (simp add: set_clause_fields)
    next
      case False
      with yz have "y = z" by simp
      with i y2 False show ?thesis by simp
    qed
  qed
  from a b c show ?thesis by (simp add: set_clause_fields)
qed

theorem update_then_read_witness:
  "fst (update_expense 9 1 1 ''2024-03-16'' 50 ''Housing'' ''rent'' ''home'' ''Check'' True
        one_expense_database)
   \<and> \<lparr>expense_id = 1, user_id = 1, date = ''2024-03-16'', amount = 50,
       category = ''Housing'', description = ''rent'', tags = ''home'',
       payment_method = ''Check'', recurring = 1, created_at = 7, updated_at = 9\<rparr>
      \<in> set (get_expenses 1 None
           (snd (update_expense 9 1 1 ''2024-03-16'' 50 ''Housing'' ''rent'' ''home'' ''Check''
              True one_expense_database)))"
  using update_then_read [of "\<lparr>expense_id = 1, user_id = 1, date = ''2024-03-15'',
      amount = 85 / 2, category = ''Food'', description = [], tags = [],
      payment_method = ''Cash'', recurring = 0, created_at = 7, updated_at = 7\<rparr>"
      one_expense_database 1 50 9 "''2024-03-16''" "''Housing''" "''rent''" "''home''"
      "''Check''" True]
  by (simp add: one_expense_database_rows set_clause_def)

subsection \<open>Amounts stay positive\<close>

lemma update_expense_rejected_result:
  "\<not> 0 < amt \<Longrightarrow> update_expense ts u e dt amt cat descr tgs pm recur db = (False, db)"
  by (cases "\<exists>x \<in> set (expenses db). expense_id x = e \<and> user_id x = u")
     (simp_all add: update_expense_def update_stmt_def Let_def filter_empty_conv map_if_none)

lemma add_expense_amounts:
  "set (map amount (expenses (snd (add_expense ts u dt amt cat descr tgs pm recur db))))
     \<subseteq> set (map amount (expenses db)) \<union> {a. 0 < a}"
  by (cases "table_exists ''expenses'' db \<and> 0 < amt")
    (auto simp: add_expense_positive add_expense_rejected)

lemma render_add_expense_positive:
  "0 < amt \<Longrightarrow>
   render_add_expense ts u d amt cat descr tgs pm recur db =
     (if fst (add_expense ts u (strftime_Ymd d) amt cat descr tgs pm recur db)
      then Expense_added_successfully else Add_expense_failed,
      snd (add_expense ts u (strftime_Ymd d) amt cat descr tgs pm recur db))"
  by (cases "add_expense ts u (strftime_Ymd d) amt cat descr tgs pm recur db")
    (simp add: render_add_expense_def)

lemma render_add_expense_rejected:
  "\<not> 0 < amt \<Longrightarrow>
   render_add_expense ts u d amt cat descr tgs pm recur db = (Amount_must_be_greater_than_0, db)"
  by (simp add: render_add_expense_def)

lemma update_expense_amounts:
  "set (map amount (expenses (snd (update_expense ts u e dt amt cat descr tgs pm recur db))))
     \<subseteq> set (map amount (expenses db)) \<union> {a. 0 < a}"
proof (cases "0 < amt")
  case True
  show ?thesis
    unfolding update_expense_positive(2) [OF True]
    using True by (auto simp: set_clause_fields)
next
  case False
  then show ?thesis by (simp add: update_expense_rejected_result)
qed

lemma delete_expense_amounts:
  "set (map amount (expenses (snd (delete_expense u e db)))) \<subseteq> set (map amount (expenses db))"
  by (auto simp: delete_expense_def delete_stmt_def Let_def)

lemma handle_amounts:
  "set (map amount (expenses (handle r db))) \<subseteq> set (map amount (expenses db)) \<union> {a. 0 < a}"
proof (cases r)
  case (SubmitAddForm ts uid d amt cat descr tgs pm recur)
  then show ?thesis
    using add_expense_amounts [of ts uid "strftime_Ymd d" amt cat descr tgs pm recur db]
    by (cases "0 < amt")
      (simp_all add: render_add_expense_positive render_add_expense_rejected)
next
  case (CallAdd ts uid dt amt cat descr tgs pm recur)
  then show ?thesis
    using add_expense_amounts [of ts uid dt amt cat descr tgs pm recur db] by simp
next
  case (CallUpdate ts uid eid dt amt cat descr tgs pm recur)
  then show ?thesis
    using update_expense_amounts [of ts uid eid dt amt cat descr tgs pm recur db] by simp
next
  case (CallDelete uid eid)
  then show ?thesis
    using delete_expense_amounts [of uid eid db] by auto
qed

lemma handle_all_keeps_positive:
  "\<forall>x \<in> set (expenses db). 0 < amount x \<Longrightarrow>
   \<forall>x \<in> set (expenses (handle_all rs db)). 0 < amount x"
proof (induction rs arbitrary: db)
  case Nil
  then show ?case by simp
next
  case (Cons r rs)
  have "\<forall>x \<in> set (expenses (handle r db)). 0 < amount x"
  proof
    fix x assume "x \<in> set (expenses (handle r db))"
    then have "amount x \<in> set (map amount (expenses (handle r db)))" by simp
    with handle_amounts [of r db]
    have "amount x \<in> set (map amount (expenses db)) \<union> {a. 0 < a}" by blast
    with Cons.prems show "0 < amount x" by auto
  qed
  from Cons.IH [OF this] show ?case by simp
qed

text \<open>
  C8. An amount that is not positive never reaches storage. The add form answers
  \<open>Amount_must_be_greater_than_0\<close>, the outcome of the branch that makes no storage call
  (a call of \<open>add_expense\<close> ends in one of the two other outcomes, and the form makes it
  exactly when the amount is positive). Called directly, the INSERT raises (the
  constraint error when the table exists) and the UPDATE raises the constraint error on
  a selected row; \<open>add_expense\<close> and \<open>update_expense\<close> answer False and leave the database
  as it is. Hence every sequence of form submissions, adds, updates and deletes keeps
  all stored amounts positive: from any database where they are, and from the empty one.
\<close>

theorem positive_amount_invariant:
  "(\<not> 0 < amt \<longrightarrow>
      render_add_expense ts u d amt cat descr tgs pm recur db
        = (Amount_must_be_greater_than_0, db)
      \<and> insert_expense ts u dt amt cat descr tgs pm r db
        = Inl (if table_exists ''expenses'' db then IntegrityError else OperationalError)
      \<and> add_expense ts u dt amt cat descr tgs pm recur db = (False, db)
      \<and> update_expense ts u e dt amt cat descr tgs pm recur db = (False, db)
      \<and> ((\<exists>x \<in> set (expenses db). expense_id x = e \<and> user_id x = u) \<longrightarrow>
           update_stmt ts dt amt cat descr tgs pm r e u db = Inl IntegrityError))
   \<and> (0 < amt \<longrightarrow>
      render_add_expense ts u d amt cat descr tgs pm recur db
        = (if fst (add_expense ts u (strftime_Ymd d) amt cat descr tgs pm recur db)
           then Expense_added_successfully else Add_expense_failed,
           snd (add_expense ts u (strftime_Ymd d) amt cat descr tgs pm recur db)))
   \<and> ((\<forall>x \<in> set (expenses db). 0 < amount x) \<longrightarrow>
        (\<forall>x \<in> set (expenses (handle_all reqs db)). 0 < amount x))
   \<and> (\<forall>x \<in> set (expenses (handle_all reqs empty_database)). 0 < amount x)"
proof -
  have a: "\<not> 0 < amt \<longrightarrow> render_add_expense ts u d amt cat descr tgs pm recur db
      = (Amount_must_be_greater_than_0, db)"
    by (simp add: render_add_expense_rejected)
  have b: "\<not> 0 < amt \<longrightarrow> insert_expense ts u dt amt cat descr tgs pm r db
      = Inl (if table_exists ''expenses'' db then IntegrityError else OperationalError)"
    by (simp add: insert_expense_def)
  have c: "\<not> 0 < amt \<longrightarrow> add_expense ts u dt amt cat descr tgs pm recur db = (False, db)"
    by (simp add: add_expense_rejected)
  have d: "\<not> 0 < amt \<longrightarrow> update_expense ts u e dt amt cat descr tgs pm recur db = (False, db)"
    by (simp add: update_expense_rejected_result)
  have e: "\<not> 0 < amt \<longrightarrow> ((\<exists>x \<in> set (expenses db). expense_id x = e \<and> user_id x = u) \<longrightarrow>
           update_stmt ts dt amt cat descr tgs pm r e u db = Inl IntegrityError)"
    by (simp add: update_stmt_def Let_def filter_empty_conv)
  have p: "0 < amt \<longrightarrow>
      render_add_expense ts u d amt cat descr tgs pm recur db
        = (if fst (add_expense ts u (strftime_Ymd d) amt cat descr tgs pm recur db)
           then Expense_added_successfully else Add_expense_failed,
           snd (add_expense ts u (strftime_Ymd d) amt cat descr tgs pm recur db))"
    using render_add_expense_positive [of amt ts u d cat descr tgs pm recur db] by blast
  have f: "(\<forall>x \<in> set (expenses db). 0 < amount x) \<longrightarrow>
        (\<forall>x \<in> set (expenses (handle_all reqs db)). 0 < amount x)"
    using handle_all_keeps_positive [of db reqs] by blast
  have g: "\<forall>x \<in> set (expenses (handle_all reqs empty_database)). 0 < amount x"
    by (rule handle_all_keeps_positive) (simp add: empty_database_def)
  from a b c d e p f g show ?thesis by blast
qed

theorem positive_amount_invariant_witness:
  "render_add_expense 8 1 \<lparr>year = 2024, month = 3, day = 16\<rparr> 0 ''Food'' [] [] ''Cash'' False
      one_expense_database = (Amount_must_be_greater_than_0, one_expense_database)
   \<and> insert_expense 8 1 ''2024-03-16'' 0 ''Food'' [] [] ''Cash'' 0 one_expense_database
      = Inl IntegrityError
   \<and> add_expense 8 1 ''2024-03-16'' 0 ''Food'' [] [] ''Cash'' False one_expense_database
      = (False, one_expense_database)
   \<and> update_stmt 8 ''2024-03-16'' 0 ''Food'' [] [] ''Cash'' 0 1 1 one_expense_database
      = Inl IntegrityError
   \<and> fst (render_add_expense 8 1 \<lparr>year = 2024, month = 3, day = 16\<rparr> 12 ''Food'' [] []
        ''Cash'' False one_expense_database) = Expense_added_successfully
   \<and> map amount (expenses (handle_all
        [CallAdd 8 1 ''2024-03-16'' (-3) ''Food'' [] [] ''Cash'' False,
         CallUpdate 9 1 1 ''2024-03-16'' 0 ''Food'' [] [] ''Cash'' False,
         CallUpdate 9 1 1 ''2024-03-17'' 20 ''Food'' [] [] ''Cash'' False]
        one_expense_database)) = [20]"
proof -
  have w: "fst (render_add_expense 8 1 \<lparr>year = 2024, month = 3, day = 16\<rparr> 12 ''Food'' [] []
        ''Cash'' False one_expense_database) = Expense_added_successfully"
    using positive_amount_invariant [where amt = 12 and ts = 8 and u = 1
        and d = "\<lparr>year = 2024, month = 3, day = 16\<rparr>" and cat = "''Food''"
        and descr = "[]" and tgs = "[]" and pm = "''Cash''" and recur = False
        and db = one_expense_database]
    by (simp add: add_expense_positive [OF one_expense_database_tables])
  show ?thesis
    using w positive_amount_invariant [where amt = 0 and ts = 8 and u = 1
        and d = "\<lparr>year = 2024, month = 3, day = 16\<rparr>" and cat = "''Food''"
        and descr = "[]" and tgs = "[]" and pm = "''Cash''" and recur = False
        and db = one_expense_database and dt = "''2024-03-16''" and r = 0 and e = 1
        and reqs = "[CallAdd 8 1 ''2024-03-16'' (-3) ''Food'' [] [] ''Cash'' False,
          CallUpdate 9 1 1 ''2024-03-16'' 0 ''Food'' [] [] ''Cash'' False,
          CallUpdate 9 1 1 ''2024-03-17'' 20 ''Food'' [] [] ''Cash'' False]"]
    by (simp add: one_expense_database_rows one_expense_database_tables add_expense_rejected
        update_expense_rejected_result update_expense_positive(2) set_clause_fields)
qed

subsection \<open>The previous month\<close>

lemma days_before_month_step:
  "2 \<le> m \<Longrightarrow> m \<le> 12 \<Longrightarrow>
   days_before_month y m = days_before_month y (m - 1) + days_in_month y (m - 1)"
  by (cases m; simp) (rename_tac k, case_tac k; simp)

lemma days_before_month_12: "days_before_month y 12 + 31 = (if is_leap y then 366 else 365)"
  by (simp add: eval_nat_numeral days_in_month_def)

lemma days_before_year_step:
  assumes "1 < y"
  shows "days_before_year y = days_before_year (y - 1) + (if is_leap (y - 1) then 366 else 365)"
proof -
  from assms obtain k where y: "y = Suc (Suc k)"
    by (cases y; cases "y - 1") auto
  define a b c d where "a = k * 365" and "b = k div 4" and "c = k div 100" and "d = k div 400"
  define p4 p100 p400 where "p4 = (Suc k mod 4 = 0)" and "p100 = (Suc k mod 100 = 0)"
    and "p400 = (Suc k mod 400 = 0)"
  have le: "c \<le> a + b"
    unfolding a_def b_def c_def by (rule order_trans [OF div_le_dividend]) simp
  have i1: "p100 \<Longrightarrow> p4" unfolding p4_def p100_def by presburger
  have i2: "p400 \<Longrightarrow> p100" unfolding p100_def p400_def by presburger
  have S: "Suc k * 365 = a + 365" by (simp add: a_def)
  have B: "Suc k div 4 = (if p4 then b + 1 else b)" by (simp add: div_Suc b_def p4_def)
  have C: "Suc k div 100 = (if p100 then c + 1 else c)" by (simp add: div_Suc c_def p100_def)
  have D: "Suc k div 400 = (if p400 then d + 1 else d)" by (simp add: div_Suc d_def p400_def)
  have leap: "is_leap (Suc k) = (p4 \<and> (\<not> p100 \<or> p400))"
    by (simp add: is_leap_def p4_def p100_def p400_def)
  have L: "days_before_year (Suc (Suc k)) = Suc k * 365 + Suc k div 4 - Suc k div 100 + Suc k div 400"
    by (simp add: days_before_year_def)
  have R: "days_before_year (Suc k) = a + b - c + d"
    by (simp add: days_before_year_def a_def b_def c_def d_def)
  have "Suc k * 365 + Suc k div 4 - Suc k div 100 + Suc k div 400
      = a + b - c + d + (if is_leap (Suc k) then 366 else 365)"
    unfolding S B C D leap using le i1 i2 by (cases p4; cases p100; cases p400; simp)
  with L R show ?thesis by (simp add: y)
qed

lemma sub_one_day_ordinal:
  assumes "valid_date d" and "sub_one_day d = Inr d'"
  shows "ymd2ord d' + 1 = ymd2ord d \<and> valid_date d'"
proof (cases "1 < day d")
  case True
  with assms show ?thesis
    by (auto simp: sub_one_day_def ymd2ord_def valid_date_def)
next
  case d1: False
  show ?thesis
  proof (cases "1 < month d")
    case True
    with d1 assms(2) have d': "d' = \<lparr>year = year d, month = month d - 1,
        day = days_in_month (year d) (month d - 1)\<rparr>"
      by (simp add: sub_one_day_def)
    from True assms(1) have m: "2 \<le> month d" "month d \<le> 12" and dd: "day d = 1"
      using d1 by (auto simp: valid_date_def)
    have "1 \<le> days_in_month (year d) (month d - 1)" by (simp add: days_in_month_def)
    with m assms(1) have v: "valid_date d'" by (auto simp: d' valid_date_def)
    from days_before_month_step [OF m, of "year d"] dd
    have "ymd2ord d' + 1 = ymd2ord d" by (simp add: d' ymd2ord_def)
    with v show ?thesis by simp
  next
    case m1: False
    with d1 assms have y: "1 < year d" and d': "d' = \<lparr>year = year d - 1, month = 12, day = 31\<rparr>"
      by (auto simp: sub_one_day_def split: if_splits)
    from m1 d1 assms(1) have md: "month d = 1" "day d = 1" by (auto simp: valid_date_def)
    from y assms(1) have v: "valid_date d'" by (auto simp: d' valid_date_def days_in_month_def)
    have "ymd2ord d' + 1 = days_before_year (year d - 1) + (days_before_month (year d - 1) 12 + 31) + 1"
      by (simp add: d' ymd2ord_def)
    also have "\<dots> = days_before_year (year d) + 1"
      using days_before_year_step [OF y] by (simp add: days_before_month_12)
    also have "\<dots> = ymd2ord d" by (simp add: ymd2ord_def md)
    finally show ?thesis using v by simp
  qed
qed

lemma replace_day_1:
  "valid_date d \<Longrightarrow> replace_day d 1 = Inr (d\<lparr>day := 1\<rparr>) \<and> valid_date (d\<lparr>day := 1\<rparr>)"
  by (auto simp: replace_day_def valid_date_def)

lemma last_month_date_value:
  assumes "valid_date now"
  shows "last_month_date now =
     (if 1 < month now
      then Inr \<lparr>year = year now, month = month now - 1,
                day = days_in_month (year now) (month now - 1)\<rparr>
      else if 1 < year now then Inr \<lparr>year = year now - 1, month = 12, day = 31\<rparr>
      else Inl OverflowError)"
  using replace_day_1 [OF assms] by (simp add: last_month_date_def sub_one_day_def)

lemma below_10: "(m::nat) < 10 \<Longrightarrow> m \<in> {0, 1, 2, 3, 4, 5, 6, 7, 8, 9}"
  by auto

lemma digit_char_code: "(of_char (digit_char n) :: nat) = 48 + n mod 10"
proof -
  have "n mod 10 \<in> {0, 1, 2, 3, 4, 5, 6, 7, 8, 9}" by (rule below_10) simp
  then show ?thesis unfolding digit_char_def by auto
qed

lemma digit_char_eq: "digit_char a = digit_char b \<Longrightarrow> a mod 10 = b mod 10"
proof -
  assume "digit_char a = digit_char b"
  then have "(of_char (digit_char a) :: nat) = of_char (digit_char b)" by simp
  then show ?thesis by (simp add: digit_char_code)
qed

lemma div_mod_10_eq: "a div 10 = b div 10 \<Longrightarrow> a mod 10 = b mod 10 \<Longrightarrow> a = (b::nat)"
  by (metis div_mult_mod_eq)

lemma fmt4_inj:
  assumes "fmt4 a = fmt4 b" and "a < 10000" and "b < 10000"
  shows "a = b"
proof -
  from assms(1) have c: "digit_char (a div 1000) = digit_char (b div 1000)"
    "digit_char (a div 100) = digit_char (b div 100)"
    "digit_char (a div 10) = digit_char (b div 10)" "digit_char a = digit_char b"
    by (simp_all add: fmt4_def)
  have a3: "a div 1000 < 10" using assms(2) by (intro less_mult_imp_div_less) simp
  have b3: "b div 1000 < 10" using assms(3) by (intro less_mult_imp_div_less) simp
  from digit_char_eq [OF c(1)] a3 b3 have d3: "a div 1000 = b div 1000" by simp
  have "a div 100 div 10 = a div (100 * 10)" "b div 100 div 10 = b div (100 * 10)"
    by (rule div_mult2_eq [symmetric])+
  with d3 have "a div 100 div 10 = b div 100 div 10" by simp
  from div_mod_10_eq [OF this digit_char_eq [OF c(2)]] have d2: "a div 100 = b div 100" .
  have "a div 10 div 10 = a div (10 * 10)" "b div 10 div 10 = b div (10 * 10)"
    by (rule div_mult2_eq [symmetric])+
  with d2 have "a div 10 div 10 = b div 10 div 10" by simp
  from div_mod_10_eq [OF this digit_char_eq [OF c(3)]] have d1: "a div 10 = b div 10" .
  from div_mod_10_eq [OF d1 digit_char_eq [OF c(4)]] show ?thesis .
qed

lemma fmt2_inj:
  assumes "fmt2 a = fmt2 b" and "a < 100" and "b < 100"
  shows "a = b"
proof -
  from assms(1) have c: "digit_char (a div 10) = digit_char (b div 10)"
    "digit_char a = digit_char b"
    by (simp_all add: fmt2_def)
  have a1: "a div 10 < 10" using assms(2) by (intro less_mult_imp_div_less) simp
  have b1: "b div 10 < 10" using assms(3) by (intro less_mult_imp_div_less) simp
  from digit_char_eq [OF c(1)] a1 b1 have d1: "a div 10 = b div 10" by simp
  from div_mod_10_eq [OF d1 digit_char_eq [OF c(2)]] show ?thesis .
qed

lemma strftime_Ym_inj:
  assumes "valid_date d" and "valid_date d'"
  shows "(strftime_Ym d = strftime_Ym d') = (year d = year d' \<and> month d = month d')"
proof
  assume e: "strftime_Ym d = strftime_Ym d'"
  have l: "length (fmt4 (year d)) = length (fmt4 (year d'))" by (simp add: fmt4_def)
  from e l have "fmt4 (year d) = fmt4 (year d')" "fmt2 (month d) = fmt2 (month d')"
    by (simp_all add: strftime_Ym_def)
  with assms show "year d = year d' \<and> month d = month d'"
    using fmt4_inj [of "year d" "year d'"] fmt2_inj [of "month d" "month d'"]
    by (auto simp: valid_date_def)
next
  assume "year d = year d' \<and> month d = month d'"
  then show "strftime_Ym d = strftime_Ym d'" by (simp add: strftime_Ym_def)
qed

text \<open>
  The one date without a preceding month in the range of \<^verbatim>\<open>datetime\<close>: in January of
  year 1 the subtraction raises (and \<open>get_monthly_summary\<close> answers \<open>(0, 0, 0)\<close>).
\<close>

lemma last_month_minyear:
  "last_month \<lparr>year = 1, month = 1, day = n\<rparr> = Inl OverflowError"
  by (simp add: last_month_def last_month_date_def replace_day_def sub_one_day_def
      days_in_month_def)

text \<open>
  C10. For every date \<open>now\<close> that a \<^verbatim>\<open>datetime\<close> can hold and that has a preceding
  month (all but January of year 1), the previous-month key is \<^verbatim>\<open>YYYY-MM\<close> of the month
  just before the month of \<open>now\<close>: the same year and the month minus one, and in January
  the year before and month 12. The date it is formatted from is the last day of that
  month, one day before the first of the current month in the day count of the
  calendar, and the key is the key of the dates of that month and of no other.
\<close>

theorem last_month_is_previous_month:
  assumes "valid_date now" and "\<not> (year now = 1 \<and> month now = 1)"
  shows "\<exists>d. last_month_date now = Inr d
     \<and> last_month now = Inr (fmt4 (year d) @ ''-'' @ fmt2 (month d))
     \<and> valid_date d
     \<and> year d = (if month now = 1 then year now - 1 else year now)
     \<and> month d = (if month now = 1 then 12 else month now - 1)
     \<and> day d = days_in_month (year d) (month d)
     \<and> ymd2ord d + 1 = ymd2ord (now\<lparr>day := 1\<rparr>)
     \<and> (\<forall>d'. valid_date d' \<longrightarrow>
           (Inr (strftime_Ym d') = last_month now) = (year d' = year d \<and> month d' = month d))"
proof -
  from assms have c: "1 < month now \<or> (month now = 1 \<and> 1 < year now)"
    by (auto simp: valid_date_def)
  have "\<exists>d. last_month_date now = Inr d
     \<and> year d = (if month now = 1 then year now - 1 else year now)
     \<and> month d = (if month now = 1 then 12 else month now - 1)
     \<and> day d = days_in_month (year d) (month d)"
  proof (cases "1 < month now")
    case True
    then show ?thesis using last_month_date_value [OF assms(1)] by simp
  next
    case False
    with c have "month now = 1" "1 < year now" by auto
    then show ?thesis
      using last_month_date_value [OF assms(1)] by (simp add: days_in_month_def)
  qed
  then obtain d where
    d: "last_month_date now = Inr d"
    and y: "year d = (if month now = 1 then year now - 1 else year now)"
    and m: "month d = (if month now = 1 then 12 else month now - 1)"
    and dd: "day d = days_in_month (year d) (month d)"
    by blast
  from d have s: "sub_one_day (now\<lparr>day := 1\<rparr>) = Inr d"
    using replace_day_1 [OF assms(1)] by (simp add: last_month_date_def)
  from sub_one_day_ordinal [OF _ s] replace_day_1 [OF assms(1)]
  have o: "ymd2ord d + 1 = ymd2ord (now\<lparr>day := 1\<rparr>)" and v: "valid_date d" by simp_all
  from d have l: "last_month now = Inr (strftime_Ym d)"
    by (simp add: last_month_def)
  then have l': "last_month now = Inr (fmt4 (year d) @ ''-'' @ fmt2 (month d))"
    by (simp add: strftime_Ym_def)
  have i: "\<forall>d'. valid_date d' \<longrightarrow>
           (Inr (strftime_Ym d') = last_month now) = (year d' = year d \<and> month d' = month d)"
    using strftime_Ym_inj [OF _ v] by (simp add: l)
  from d l' v y m dd o i show ?thesis by blast
qed

theorem last_month_is_previous_month_witness:
  "last_month \<lparr>year = 2024, month = 1, day = 31\<rparr> = Inr ''2023-12''
   \<and> last_month \<lparr>year = 2024, month = 3, day = 31\<rparr> = Inr ''2024-02''
   \<and> last_month_date \<lparr>year = 2024, month = 3, day = 31\<rparr>
       = Inr \<lparr>year = 2024, month = 2, day = 29\<rparr>"
  using last_month_is_previous_month [of "\<lparr>year = 2024, month = 1, day = 31\<rparr>"]
    last_month_is_previous_month [of "\<lparr>year = 2024, month = 3, day = 31\<rparr>"]
  by (auto simp: valid_date_def days_in_month_def is_leap_def fmt4_def fmt2_def
      digit_char_def)

subsection \<open>The monthly summary\<close>

lemma ascii_lower_plain:
  assumes "(of_char p :: nat) < 65"
  shows "(ascii_lower p = ascii_lower c) = (p = c)"
proof -
  have p: "ascii_lower p = p" using assms by (simp add: ascii_lower_def Let_def)
  show ?thesis
  proof (cases "65 \<le> (of_char c :: nat) \<and> (of_char c :: nat) \<le> 90")
    case True
    then have "(of_char (ascii_lower c) :: nat) = of_char c + 32"
      by (simp add: ascii_lower_def Let_def)
    with True assms have "ascii_lower c \<noteq> p" "p \<noteq> c" by auto
    with p show ?thesis by auto
  next
    case False
    then have "ascii_lower c = c" by (auto simp: ascii_lower_def Let_def)
    with p show ?thesis by simp
  qed
qed

lemma like_percent: "like ''%'' s"
  by (induction s) simp_all

lemma like_prefix:
  assumes "\<forall>c \<in> set p. (of_char c :: nat) < 65 \<and> c \<noteq> CHR ''%''"
  shows "like (p @ ''%'') s = (take (length p) s = p)"
  using assms
proof (induction p arbitrary: s)
  case Nil
  then show ?case using like_percent by simp
next
  case (Cons c p)
  then have c: "(of_char c :: nat) < 65" "c \<noteq> CHR ''%''" by simp_all
  then have u: "c \<noteq> CHR ''_''" by auto
  show ?case
  proof (cases s)
    case Nil
    with c show ?thesis by simp
  next
    case (Cons x xs)
    with c u Cons.IH [of xs] Cons.prems ascii_lower_plain [OF c(1), of x]
    show ?thesis by auto
  qed
qed

lemma digit_char_plain: "(of_char (digit_char n) :: nat) < 65 \<and> digit_char n \<noteq> CHR ''%''"
proof -
  have "(of_char (digit_char n) :: nat) < 65" by (simp add: digit_char_code)
  moreover have "digit_char n \<noteq> CHR ''%''"
  proof
    assume "digit_char n = CHR ''%''"
    then have "(of_char (digit_char n) :: nat) = of_char CHR ''%''" by simp
    then show False by (simp add: digit_char_code)
  qed
  ultimately show ?thesis by simp
qed

lemma strftime_Ym_plain:
  "\<forall>c \<in> set (strftime_Ym d). (of_char c :: nat) < 65 \<and> c \<noteq> CHR ''%''"
  using digit_char_plain by (simp add: strftime_Ym_def fmt4_def fmt2_def)

lemma length_strftime_Ym: "length (strftime_Ym d) = 7"
  by (simp add: strftime_Ym_def fmt4_def fmt2_def)

text \<open>A month key followed by \<^verbatim>\<open>%\<close> matches exactly the texts that begin with the key.\<close>

lemma like_month_key: "like (strftime_Ym d @ ''%'') s = (take 7 s = strftime_Ym d)"
  using like_prefix [OF strftime_Ym_plain, of d s] by (simp add: length_strftime_Ym)

lemma or_0_sql_sum: "or_0 (sql_sum xs) = sum_list xs"
  by (simp add: or_0_def sql_sum_def)

lemma filter_none: "\<forall>x \<in> set xs. \<not> P x \<Longrightarrow> filter (\<lambda>x. P x \<and> Q x) xs = []"
  by (induction xs) auto

lemma get_monthly_summary_no_rows:
  assumes "\<forall>e \<in> set (expenses db). user_id e \<noteq> uid"
  shows "get_monthly_summary now uid db = (0, 0, 0)"
proof -
  have "\<And>k. filter (\<lambda>e. user_id e = uid \<and> like k (date e)) (expenses db) = []"
    using assms by (intro filter_none) simp
  then show ?thesis
    by (simp add: get_monthly_summary_def Let_def or_0_sql_sum split: sum.splits)
qed

lemma get_monthly_summary_value:
  assumes "last_month_date now = Inr d" and "table_exists ''expenses'' db"
  shows "get_monthly_summary now uid db =
       (sum_list (map amount (filter (\<lambda>e. user_id e = uid \<and> take 7 (date e) = strftime_Ym now)
          (expenses db))),
        sum_list (map amount (filter (\<lambda>e. user_id e = uid \<and> take 7 (date e) = strftime_Ym d)
          (expenses db))),
        length (filter (\<lambda>e. user_id e = uid \<and> take 7 (date e) = strftime_Ym now)
          (expenses db)))"
  using assms
  by (simp add: get_monthly_summary_def last_month_def Let_def or_0_sql_sum like_month_key)

text \<open>
  C6. When the clock shows a date that has a preceding month and the table exists,
  \<open>get_monthly_summary\<close> returns the sum and the number of the user's expenses whose
  date text begins with the seven characters \<^verbatim>\<open>YYYY-MM\<close> of the current month, and the
  sum of those whose date text begins with the \<^verbatim>\<open>YYYY-MM\<close> of the preceding month;
  nothing else about the date text is looked at. Whatever the clock shows, a user with
  no expenses gets \<open>(0, 0, 0)\<close>.
\<close>

theorem monthly_summary_by_prefix:
  "(valid_date now \<and> \<not> (year now = 1 \<and> month now = 1) \<and> table_exists ''expenses'' db \<longrightarrow>
      get_monthly_summary now uid db =
       (sum_list (map amount (filter (\<lambda>e. user_id e = uid \<and> take 7 (date e) = strftime_Ym now)
          (expenses db))),
        sum_list (map amount (filter (\<lambda>e. user_id e = uid \<and> take 7 (date e) =
            strftime_Ym \<lparr>year = (if month now = 1 then year now - 1 else year now),
                         month = (if month now = 1 then 12 else month now - 1), day = 1\<rparr>)
          (expenses db))),
        length (filter (\<lambda>e. user_id e = uid \<and> take 7 (date e) = strftime_Ym now)
          (expenses db))))
   \<and> ((\<forall>e \<in> set (expenses db). user_id e \<noteq> uid) \<longrightarrow>
        get_monthly_summary now uid db = (0, 0, 0))"
proof -
  have a: "get_monthly_summary now uid db =
       (sum_list (map amount (filter (\<lambda>e. user_id e = uid \<and> take 7 (date e) = strftime_Ym now)
          (expenses db))),
        sum_list (map amount (filter (\<lambda>e. user_id e = uid \<and> take 7 (date e) =
            strftime_Ym \<lparr>year = (if month now = 1 then year now - 1 else year now),
                         month = (if month now = 1 then 12 else month now - 1), day = 1\<rparr>)
          (expenses db))),
        length (filter (\<lambda>e. user_id e = uid \<and> take 7 (date e) = strftime_Ym now)
          (expenses db)))"
    if v: "valid_date now" and n: "\<not> (year now = 1 \<and> month now = 1)"
      and t: "table_exists ''expenses'' db"
  proof -
    from v n have c: "1 < month now \<or> (month now = 1 \<and> 1 < year now)"
      by (auto simp: valid_date_def)
    define d where "d = (if 1 < month now
      then \<lparr>year = year now, month = month now - 1,
                day = days_in_month (year now) (month now - 1)\<rparr>
      else \<lparr>year = year now - 1, month = 12, day = 31\<rparr>)"
    from c have d: "last_month_date now = Inr d"
      using last_month_date_value [OF v] by (auto simp: d_def)
    from c have k: "strftime_Ym d =
        strftime_Ym \<lparr>year = (if month now = 1 then year now - 1 else year now),
                     month = (if month now = 1 then 12 else month now - 1), day = 1\<rparr>"
      by (auto simp: d_def strftime_Ym_def)
    from get_monthly_summary_value [OF d t, of uid] k show ?thesis by simp
  qed
  have b: "get_monthly_summary now uid db = (0, 0, 0)"
    if "\<forall>e \<in> set (expenses db). user_id e \<noteq> uid"
    using that by (rule get_monthly_summary_no_rows)
  from a b show ?thesis by blast
qed

theorem monthly_summary_by_prefix_witness:
  "get_monthly_summary \<lparr>year = 2024, month = 3, day = 20\<rparr> 1 one_expense_database
      = (85 / 2, 0, 1)
   \<and> get_monthly_summary \<lparr>year = 2024, month = 4, day = 2\<rparr> 1 one_expense_database
      = (0, 85 / 2, 0)
   \<and> get_monthly_summary \<lparr>year = 2024, month = 3, day = 20\<rparr> 2 one_expense_database
      = (0, 0, 0)"
  using monthly_summary_by_prefix [of "\<lparr>year = 2024, month = 3, day = 20\<rparr>" one_expense_database 1]
    monthly_summary_by_prefix [of "\<lparr>year = 2024, month = 4, day = 2\<rparr>" one_expense_database 1]
    monthly_summary_by_prefix [of "\<lparr>year = 2024, month = 3, day = 20\<rparr>" one_expense_database 2]
  by (simp add: one_expense_database_rows one_expense_database_tables valid_date_def
      days_in_month_def strftime_Ym_def fmt4_def fmt2_def digit_char_def)


end
